theory Spec2Isabelle
  imports Main "HOL-Library.Word"
begin

section \<open>Scope\<close>

text \<open>
  A model of the request handler of \<^verbatim>\<open>src/server.js\<close>: the middleware
  \<^verbatim>\<open>verifyFirebaseToken\<close> and the route \<^verbatim>\<open>POST /api/ask\<close> with its two response modes.
  The transcription, generation, synthesis, identity and storage services are parameters:
  a request is run against an environment that fixes the outcome of every call, and the
  handler returns its response together with the calls it made, in order.

  The repository keeps two earlier copies of the route: one that only answers in JSON, which
  is the buffered branch modelled here, and one that only streams, written as raw token
  lines. Their validation, input resolution, transcript cleanup and context assembly are
  the code modelled here; the frame format below is that of \<^verbatim>\<open>src/server.js\<close>.
  Response headers other than the status, and the CORS handling, are not part of the model.
\<close>

section \<open>JavaScript values and string helpers\<close>

text \<open>
  The request body of \<^verbatim>\<open>POST /api/ask\<close> is parsed by multer (multipart forms) or by
  \<^verbatim>\<open>express.json()\<close>, so a body field is an arbitrary JSON value or absent.
  A string is a list of code units; the model covers the code units below 256, one
  \<^typ>\<open>char\<close> each. Numbers matter only through their truthiness, so integers suffice.
\<close>

datatype jsval =
    JUndefined
  | JNull
  | JBool bool
  | JNum int
  | JStr string
  | JArr "jsval list"
  | JObj "(string \<times> jsval) list"

text \<open>JavaScript's \<^verbatim>\<open>ToBoolean\<close>.\<close>

fun truthy :: "jsval \<Rightarrow> bool" where
  "truthy JUndefined = False"
| "truthy JNull = False"
| "truthy (JBool b) = b"
| "truthy (JNum n) = (n \<noteq> 0)"
| "truthy (JStr s) = (s \<noteq> [])"
| "truthy (JArr xs) = True"
| "truthy (JObj kvs) = True"

text \<open>
  The code units that \<^verbatim>\<open>String.prototype.trim\<close> strips and that the regular
  expression class \<^verbatim>\<open>\s\<close> matches: tab, line feed, vertical tab, form feed,
  carriage return, space and no-break space.
\<close>

definition is_space :: "char \<Rightarrow> bool" where
  "is_space c = (c \<in> set [CHR 0x09, CHR 0x0A, CHR 0x0B, CHR 0x0C, CHR 0x0D, CHR 0x20, CHR 0xA0])"

definition trim :: "string \<Rightarrow> string" where
  "trim s = rev (dropWhile is_space (rev (dropWhile is_space s)))"

text \<open>\<^verbatim>\<open>toLowerCase\<close> on one code unit: A-Z, and the upper-case letters of Latin-1.\<close>

definition to_lower :: "char \<Rightarrow> char" where
  "to_lower c =
     (let n = (of_char c :: nat)
      in if (65 \<le> n \<and> n \<le> 90) \<or> (192 \<le> n \<and> n \<le> 222 \<and> n \<noteq> 215)
         then char_of (n + 32) else c)"

definition toLowerCase :: "string \<Rightarrow> string" where
  "toLowerCase s = map to_lower s"

fun starts_with :: "string \<Rightarrow> string \<Rightarrow> bool" where
  "starts_with s [] = True"
| "starts_with [] (p # ps) = False"
| "starts_with (c # cs) (p # ps) = (c = p \<and> starts_with cs ps)"

text \<open>\<^verbatim>\<open>s.includes(p)\<close>: \<open>p\<close> occurs in \<open>s\<close> as a contiguous substring.\<close>

fun str_includes :: "string \<Rightarrow> string \<Rightarrow> bool" where
  "str_includes [] p = (p = [])"
| "str_includes (c # cs) p = (starts_with (c # cs) p \<or> str_includes cs p)"

text \<open>\<^verbatim>\<open>x || d\<close> for an \<open>x\<close> that is a string or undefined: the empty string is falsy.\<close>

definition or_str :: "string option \<Rightarrow> string \<Rightarrow> string" where
  "or_str x d = (case x of None \<Rightarrow> d | Some s \<Rightarrow> if s = [] then d else s)"

text \<open>
  \<^verbatim>\<open>xs.slice(start)\<close>: a negative start counts from the end and is clamped at 0,
  a positive one is clamped at the length.
\<close>

definition js_slice_from :: "int \<Rightarrow> 'a list \<Rightarrow> 'a list" where
  "js_slice_from start xs =
     (let len = int (length xs);
          k = (if start < 0 then max (len + start) 0 else min start len)
      in drop (nat k) xs)"

section \<open>Errors, requests, providers\<close>

text \<open>
  A thrown value, as the handlers read it: \<^verbatim>\<open>err.error.message\<close> (the body of an API
  error), \<^verbatim>\<open>err.message\<close>, and the error's name, which \<^verbatim>\<open>String(err)\<close> returns
  when the message is empty.
\<close>

record js_error =
  err_name :: string
  err_api_message :: "string option"
  err_message :: "string option"

text \<open>
  Calling \<^verbatim>\<open>.trim()\<close> on a truthy value that is not a string throws a TypeError; the
  message is the one V8 prints for the call \<^verbatim>\<open>(body.f || '').trim()\<close>.
\<close>

definition type_error :: "string \<Rightarrow> js_error" where
  "type_error field =
     \<lparr> err_name = ''TypeError'',
       err_api_message = None,
       err_message = Some (''(body.'' @ field @ '' || \"\").trim is not a function'') \<rparr>"

type_synonym bytes = "8 word list"

record req_body =
  b_answerLanguage :: jsval
  b_speakLanguage :: jsval
  b_conversationId :: jsval
  b_uid :: jsval
  b_history :: jsval
  b_text :: jsval

text \<open>
  \<^verbatim>\<open>req.file\<close> as multer's memory storage leaves it: the buffer and its size. A buffer
  is an object, so \<^verbatim>\<open>req.file.buffer\<close> is truthy whenever there is a file.
\<close>

record upload =
  file_buffer :: bytes
  file_size :: nat

record request =
  query_stream :: "string option"
  accept :: "string option"
  authorization :: "string option"
  body :: req_body
  req_file :: "upload option"

text \<open>
  The process-wide constants: \<^verbatim>\<open>adminApp\<close> is set when the Firebase Admin SDK was
  initialised, \<^verbatim>\<open>CLEAN_TRANSCRIPT\<close> and \<^verbatim>\<open>STT_MODEL\<close> come from the environment.
\<close>

record config =
  adminApp :: bool
  CLEAN_TRANSCRIPT :: bool
  STT_MODEL :: string

record decoded =
  d_uid :: string

text \<open>
  The language hint of a transcription: a code of the table \<^verbatim>\<open>ISO\<close>, or the value of a
  property that the table inherits from \<^verbatim>\<open>Object.prototype\<close>, named by its key.
\<close>

datatype hint =
    Iso_code string
  | Inherited string

record stt_args =
  stt_file :: bytes
  stt_model :: string
  stt_language :: "hint option"
  stt_prompt :: string

text \<open>A conversation turn as it is written to Firestore (the server timestamp is left out).\<close>

record turn =
  t_role :: string
  t_content :: string
  t_speakLanguage :: string
  t_answerLanguage :: string

text \<open>
  The external collaborators, each a function from the arguments of the call to its
  outcome; \<open>Inl\<close> is a thrown error. The arguments that are the same at every call
  (model names, voice, format) are left out.
  \<^item> \<open>JSON_parse\<close>: \<^verbatim>\<open>JSON.parse\<close>, \<open>None\<close> when it throws;
  \<^item> \<open>verifyIdToken\<close>: the decoded token of a bearer credential;
  \<^item> \<open>transcribe\<close>: \<^verbatim>\<open>openai.audio.transcriptions.create\<close>, the \<^verbatim>\<open>text\<close> of the result;
  \<^item> \<open>responses_create\<close>: \<^verbatim>\<open>openai.responses.create\<close>, the \<^verbatim>\<open>output_text\<close>;
  \<^item> \<open>chat_stream\<close>: \<^verbatim>\<open>openai.chat.completions.create\<close> with \<^verbatim>\<open>stream: true\<close>: the
    \<^verbatim>\<open>choices[0].delta.content\<close> of every chunk in order, and the error that ends the
    iteration if one does;
  \<^item> \<open>speech\<close>: \<^verbatim>\<open>openai.audio.speech.create\<close>, the audio bytes rendered in base64
    (empty exactly when there are no bytes);
  \<^item> \<open>fs_set\<close>, \<open>fs_add\<close>: the Firestore writes under
    \<^verbatim>\<open>users/<uid>/chats/<conversationId>\<close>, \<open>Some\<close> the error when the write throws.
\<close>

record providers =
  JSON_parse :: "string \<Rightarrow> jsval option"
  verifyIdToken :: "string \<Rightarrow> js_error + decoded"
  transcribe :: "stt_args \<Rightarrow> js_error + string option"
  responses_create :: "jsval list \<Rightarrow> js_error + string option"
  chat_stream :: "jsval list \<Rightarrow> js_error + (string option list \<times> js_error option)"
  speech :: "string \<Rightarrow> js_error + string"
  fs_set :: "string \<Rightarrow> string \<Rightarrow> js_error option"
  fs_add :: "string \<Rightarrow> string \<Rightarrow> turn \<Rightarrow> js_error option"

text \<open>The calls a request makes to the collaborators, in the order it makes them.\<close>

datatype call =
    Verify string
  | Transcribe stt_args
  | Responses "jsval list"
  | Chat_stream "jsval list"
  | Speech string
  | Fs_set string string
  | Fs_add string string turn

section \<open>Responses\<close>

text \<open>The frames of the event stream, one JSON object per \<^verbatim>\<open>data:\<close> line.\<close>

datatype frame =
    Delta string
  | Message_end
  | Tts string
  | Tts_error string
  | Warn string
  | Done string string
  | Error_frame "string option" string

datatype json_body =
    Error_body string string
  | Answer_body string string string string

text \<open>
  A response is a status with one JSON object, or a status with the frames written to
  the event stream and whether \<^verbatim>\<open>res.end()\<close> was called.
\<close>

datatype response =
    Json nat json_body
  | Sse nat "frame list" bool

fun status :: "response \<Rightarrow> nat" where
  "status (Json code b) = code"
| "status (Sse code fs closed) = code"

fun frame_error :: "frame \<Rightarrow> string option" where
  "frame_error (Error_frame k m) = k"
| "frame_error f = None"

text \<open>The error kind a response carries: the \<^verbatim>\<open>error\<close> field of its body or of its last frame.\<close>

fun error_kind :: "response \<Rightarrow> string option" where
  "error_kind (Json code (Error_body k m)) = Some k"
| "error_kind (Json code (Answer_body c t a b)) = None"
| "error_kind (Sse code fs closed) = (if fs = [] then None else frame_error (last fs))"

section \<open>Middleware: optional verification of the bearer credential\<close>

definition is_line_terminator :: "char \<Rightarrow> bool" where
  "is_line_terminator c = (c = CHR 0x0A \<or> c = CHR 0x0D)"

text \<open>
  The match of \<^verbatim>\<open>/^Bearer\s+(.*)$/i\<close> and its first group: the word in any case, at
  least one white-space code unit, and a rest that holds no line terminator.
\<close>

definition bearer_token :: "string \<Rightarrow> string option" where
  "bearer_token authHdr =
     (case drop 6 authHdr of
        [] \<Rightarrow> None
      | c # cs \<Rightarrow>
          let tok = dropWhile is_space (c # cs)
          in if toLowerCase (take 6 authHdr) = ''bearer'' \<and> is_space c
                \<and> list_all (\<lambda>x. \<not> is_line_terminator x) tok
             then Some tok else None)"

text \<open>
  \<^verbatim>\<open>verifyFirebaseToken\<close>: \<^verbatim>\<open>req.firebaseUser\<close> is the decoded token when a bearer
  credential is sent, the Admin SDK is initialised and the verification succeeds, and
  null in every other case. It never fails the request.
\<close>

definition verifyFirebaseToken :: "config \<Rightarrow> providers \<Rightarrow> request \<Rightarrow> decoded option \<times> call list" where
  "verifyFirebaseToken cfg env req =
     (case bearer_token (or_str (authorization req) []) of
        None \<Rightarrow> (None, [])
      | Some tok \<Rightarrow>
          if adminApp cfg then
            (case verifyIdToken env tok of
               Inl e \<Rightarrow> (None, [Verify tok])
             | Inr d \<Rightarrow> (Some d, [Verify tok]))
          else (None, []))"

section \<open>The route \<^verbatim>\<open>POST /api/ask\<close>\<close>

subsection \<open>Mode and fields\<close>

definition wantsStream :: "request \<Rightarrow> bool" where
  "wantsStream req =
     (trim (or_str (query_stream req) []) = ''1'' \<or>
      str_includes (toLowerCase (or_str (accept req) [])) ''text/event-stream'')"

text \<open>\<^verbatim>\<open>(body.f || '').trim()\<close> for the body field \<open>f\<close>.\<close>

fun trim_field :: "string \<Rightarrow> jsval \<Rightarrow> js_error + string" where
  "trim_field name (JStr s) = Inr (trim s)"
| "trim_field name v = (if truthy v then Inl (type_error name) else Inr [])"

record fields =
  f_answerLanguage :: string
  f_speakLanguage :: string
  f_conversationId :: string
  f_uid :: string

definition parse_fields :: "req_body \<Rightarrow> js_error + fields" where
  "parse_fields b =
     (case trim_field ''answerLanguage'' (b_answerLanguage b) of
        Inl e \<Rightarrow> Inl e
      | Inr answerLanguage \<Rightarrow>
     (case trim_field ''speakLanguage'' (b_speakLanguage b) of
        Inl e \<Rightarrow> Inl e
      | Inr speakLanguage \<Rightarrow>
     (case trim_field ''conversationId'' (b_conversationId b) of
        Inl e \<Rightarrow> Inl e
      | Inr conversationId \<Rightarrow>
     (case trim_field ''uid'' (b_uid b) of
        Inl e \<Rightarrow> Inl e
      | Inr uid \<Rightarrow>
          Inr \<lparr> f_answerLanguage = answerLanguage, f_speakLanguage = speakLanguage,
                f_conversationId = conversationId, f_uid = uid \<rparr>))))"

text \<open>
  \<^verbatim>\<open>clientHistory\<close>: the history field when it is an array, the parsed field when it
  is a string that parses to an array, and the empty list otherwise.
\<close>

definition parse_history :: "providers \<Rightarrow> jsval \<Rightarrow> jsval list" where
  "parse_history env h =
     (if truthy h then
        (case (case h of JStr s \<Rightarrow> JSON_parse env s | _ \<Rightarrow> Some h) of
           Some (JArr xs) \<Rightarrow> xs
         | _ \<Rightarrow> [])
      else [])"

subsection \<open>Validation\<close>

text \<open>How a request leaves the handler early: a validation error, or a thrown value.\<close>

datatype abort =
    Invalid nat string string
  | Thrown js_error

definition uid_mismatch :: "string \<Rightarrow> decoded option \<Rightarrow> bool" where
  "uid_mismatch uid firebaseUser =
     (uid \<noteq> [] \<and>
      (case firebaseUser of None \<Rightarrow> False | Some d \<Rightarrow> d_uid d \<noteq> [] \<and> uid \<noteq> d_uid d))"

definition validate :: "fields \<Rightarrow> decoded option \<Rightarrow> abort option" where
  "validate f firebaseUser =
     (if f_conversationId f = [] then
        Some (Invalid 400 ''missing_conversation'' ''No conversationId.'')
      else if f_answerLanguage f = [] \<or> f_speakLanguage f = [] then
        Some (Invalid 400 ''missing_language''
                ''Please select both Speaking and Answer languages.'')
      else if uid_mismatch (f_uid f) firebaseUser then
        Some (Invalid 401 ''unauthenticated'' ''UID does not match.'')
      else None)"

subsection \<open>Input resolution\<close>

text \<open>The table from language names to the codes of the transcription provider.\<close>

definition ISO :: "(string \<times> string) list" where
  "ISO = [(''English'', ''en''), (''Hindi'', ''hi''), (''Tamil'', ''ta''), (''Telugu'', ''te''),
          (''Kannada'', ''kn''), (''Malayalam'', ''ml''), (''Marathi'', ''mr''),
          (''Gujarati'', ''gu''), (''Bengali'', ''bn''), (''Punjabi'', ''pa''),
          (''Panjabi'', ''pa'')]"

text \<open>
  The table is an object literal, so a lookup also finds the properties of
  \<^verbatim>\<open>Object.prototype\<close>: functions, and the prototype itself under \<^verbatim>\<open>__proto__\<close>. All of
  them are truthy.
\<close>

definition object_prototype_keys :: "string list" where
  "object_prototype_keys =
     [''constructor'', ''__defineGetter__'', ''__defineSetter__'', ''hasOwnProperty'',
      ''__lookupGetter__'', ''__lookupSetter__'', ''isPrototypeOf'', ''propertyIsEnumerable'',
      ''toString'', ''valueOf'', ''__proto__'', ''toLocaleString'']"

text \<open>\<^verbatim>\<open>ISO[speakLanguage] || undefined\<close>.\<close>

definition language_hint :: "string \<Rightarrow> hint option" where
  "language_hint speakLanguage =
     (case map_of ISO speakLanguage of
        Some code \<Rightarrow> Some (Iso_code code)
      | None \<Rightarrow>
          if speakLanguage \<in> set object_prototype_keys then Some (Inherited speakLanguage)
          else None)"

definition transcription_request :: "config \<Rightarrow> upload \<Rightarrow> string \<Rightarrow> stt_args" where
  "transcription_request cfg f speakLanguage =
     \<lparr> stt_file = file_buffer f,
       stt_model = STT_MODEL cfg,
       stt_language = language_hint speakLanguage,
       stt_prompt = ''This is a child speaking '' @ speakLanguage @
                    '' about school topics. Keep output in '' @ speakLanguage @ ''.'' \<rparr>"

text \<open>The audio branch is taken for an uploaded file of at least 5000 bytes.\<close>

definition qualifying_audio :: "request \<Rightarrow> bool" where
  "qualifying_audio req = (case req_file req of None \<Rightarrow> False | Some f \<Rightarrow> 5000 \<le> file_size f)"

text \<open>The text branch is taken for a text field that is a string with more than white space.\<close>

definition qualifying_text :: "request \<Rightarrow> bool" where
  "qualifying_text req =
     (case b_text (body req) of JStr t \<Rightarrow> t \<noteq> [] \<and> trim t \<noteq> [] | _ \<Rightarrow> False)"

definition text_input :: "request \<Rightarrow> abort + string" where
  "text_input req =
     (case b_text (body req) of
        JStr t \<Rightarrow>
          if t \<noteq> [] \<and> trim t \<noteq> [] then Inr (trim t)
          else Inl (Invalid 400 ''no_input'' ''No valid audio or text provided.'')
      | _ \<Rightarrow> Inl (Invalid 400 ''no_input'' ''No valid audio or text provided.''))"

definition resolve_input :: "config \<Rightarrow> providers \<Rightarrow> request \<Rightarrow> string \<Rightarrow> (abort + string) \<times> call list" where
  "resolve_input cfg env req speakLanguage =
     (case req_file req of
        None \<Rightarrow> (text_input req, [])
      | Some f \<Rightarrow>
          if 5000 \<le> file_size f then
            (let args = transcription_request cfg f speakLanguage
             in case transcribe env args of
                  Inl e \<Rightarrow> (Inl (Thrown e), [Transcribe args])
                | Inr stt_text \<Rightarrow> (Inr (trim (or_str stt_text [])), [Transcribe args]))
          else (text_input req, []))"

subsection \<open>Optional transcript cleanup\<close>

definition chat_message :: "string \<Rightarrow> string \<Rightarrow> jsval" where
  "chat_message role content = JObj [(''role'', JStr role), (''content'', JStr content)]"

definition cleanup_input :: "string \<Rightarrow> string \<Rightarrow> jsval list" where
  "cleanup_input speakLanguage userText =
     [chat_message ''system''
        (''Fix obvious transcription errors in '' @ speakLanguage @
         '' child speech. Return only the corrected text.''),
      chat_message ''user'' userText]"

definition clean_transcript :: "config \<Rightarrow> providers \<Rightarrow> string \<Rightarrow> string \<Rightarrow> (js_error + string) \<times> call list" where
  "clean_transcript cfg env speakLanguage userText =
     (if CLEAN_TRANSCRIPT cfg \<and> userText \<noteq> [] then
        (case responses_create env (cleanup_input speakLanguage userText) of
           Inl e \<Rightarrow> (Inl e, [Responses (cleanup_input speakLanguage userText)])
         | Inr output_text \<Rightarrow>
             (Inr (trim (or_str output_text userText)),
              [Responses (cleanup_input speakLanguage userText)]))
      else (Inr userText, []))"

subsection \<open>Context assembly\<close>

definition MAX_TURNS :: int where
  "MAX_TURNS = 6"

definition systemPrompt :: "string \<Rightarrow> string" where
  "systemPrompt answerLanguage =
     ''You are a '' @ answerLanguage @ '' kids e-learning helper for Indian kids. '' @
     ''Use very simple words, short sentences, warm tone. '' @
     ''Use chat history for continuity and clarify doubts with tiny examples. '' @
     ''Avoid adult/harmful content. Always answer in '' @ answerLanguage @ ''.''"

definition compose_messages :: "string \<Rightarrow> jsval list \<Rightarrow> string \<Rightarrow> jsval list" where
  "compose_messages answerLanguage clientHistory userText =
     (let safeHistory = js_slice_from (- MAX_TURNS * 2) clientHistory
      in [chat_message ''system'' (systemPrompt answerLanguage)] @ safeHistory @
         [chat_message ''user'' userText])"

text \<open>What the handler holds once the input is resolved and the messages are composed.\<close>

record ctx =
  c_answerLanguage :: string
  c_speakLanguage :: string
  c_conversationId :: string
  c_uid :: string
  c_userText :: string
  c_messages :: "jsval list"

definition prepare :: "config \<Rightarrow> providers \<Rightarrow> request \<Rightarrow> decoded option \<Rightarrow> (abort + ctx) \<times> call list" where
  "prepare cfg env req firebaseUser =
     (case parse_fields (body req) of
        Inl e \<Rightarrow> (Inl (Thrown e), [])
      | Inr f \<Rightarrow>
          (case validate f firebaseUser of
             Some a \<Rightarrow> (Inl a, [])
           | None \<Rightarrow>
               (case resolve_input cfg env req (f_speakLanguage f) of
                  (Inl a, cs) \<Rightarrow> (Inl a, cs)
                | (Inr resolved, cs) \<Rightarrow>
                    (case clean_transcript cfg env (f_speakLanguage f) resolved of
                       (Inl e, cs') \<Rightarrow> (Inl (Thrown e), cs @ cs')
                     | (Inr userText, cs') \<Rightarrow>
                         (Inr \<lparr> c_answerLanguage = f_answerLanguage f,
                                c_speakLanguage = f_speakLanguage f,
                                c_conversationId = f_conversationId f,
                                c_uid = f_uid f,
                                c_userText = userText,
                                c_messages =
                                  compose_messages (f_answerLanguage f)
                                    (parse_history env (b_history (body req))) userText \<rparr>,
                          cs @ cs')))))"

subsection \<open>Best-effort tail: synthesis and persistence\<close>

definition user_turn :: "ctx \<Rightarrow> turn" where
  "user_turn c =
     \<lparr> t_role = ''user'', t_content = c_userText c,
       t_speakLanguage = c_speakLanguage c, t_answerLanguage = c_answerLanguage c \<rparr>"

definition assistant_turn :: "ctx \<Rightarrow> string \<Rightarrow> turn" where
  "assistant_turn c assistantText =
     \<lparr> t_role = ''assistant'', t_content = assistantText,
       t_speakLanguage = c_speakLanguage c, t_answerLanguage = c_answerLanguage c \<rparr>"

text \<open>
  The three dependent writes inside one \<^verbatim>\<open>try\<close>: touch the chat document, add the
  user turn, add the assistant turn. The first write that throws ends the block; the
  result says whether all three went through.
\<close>

definition write_history :: "providers \<Rightarrow> ctx \<Rightarrow> string \<Rightarrow> bool \<times> call list" where
  "write_history env c assistantText =
     (let u = c_uid c; cid = c_conversationId c;
          ut = user_turn c; at = assistant_turn c assistantText
      in case fs_set env u cid of
           Some e \<Rightarrow> (False, [Fs_set u cid])
         | None \<Rightarrow>
             (case fs_add env u cid ut of
                Some e \<Rightarrow> (False, [Fs_set u cid, Fs_add u cid ut])
              | None \<Rightarrow>
                  (case fs_add env u cid at of
                     Some e \<Rightarrow> (False, [Fs_set u cid, Fs_add u cid ut, Fs_add u cid at])
                   | None \<Rightarrow> (True, [Fs_set u cid, Fs_add u cid ut, Fs_add u cid at]))))"

text \<open>The guard \<^verbatim>\<open>if (adminApp && uid)\<close> around the writes.\<close>

definition persist :: "config \<Rightarrow> providers \<Rightarrow> ctx \<Rightarrow> string \<Rightarrow> bool \<times> call list" where
  "persist cfg env c assistantText =
     (if adminApp cfg \<and> c_uid c \<noteq> [] then write_history env c assistantText else (True, []))"

subsection \<open>The outer catch\<close>

definition error_text :: "js_error \<Rightarrow> string" where
  "error_text err = or_str (err_api_message err) (or_str (err_message err) [])"

definition outer_catch :: "js_error \<Rightarrow> response" where
  "outer_catch err =
     (let msg = toLowerCase (error_text err)
      in if str_includes msg ''shorter than'' \<or> str_includes msg ''too short'' then
           Json 400 (Error_body ''audio_too_short''
                       ''Audio too short. Please record at least 1 second.'')
         else if str_includes msg ''invalid'' \<and> str_includes msg ''language'' then
           Json 400 (Error_body ''invalid_language'' ''Unsupported language code.'')
         else
           Json 500 (Error_body ''processing_failed''
                       ''Something went wrong while processing input.''))"

subsection \<open>Streaming mode\<close>

definition sseError :: "nat \<Rightarrow> string \<Rightarrow> string \<Rightarrow> response" where
  "sseError code err msg = Sse code [Error_frame (Some err) msg] True"

text \<open>
  The loop over the chunks of the stream: a chunk with content extends
  \<^verbatim>\<open>fullAssistantText\<close> and is sent as a delta frame, a chunk without is skipped.
\<close>

fun stream_loop :: "string option list \<Rightarrow> string \<Rightarrow> frame list \<Rightarrow> string \<times> frame list" where
  "stream_loop [] fullAssistantText sent = (fullAssistantText, sent)"
| "stream_loop (chunk # chunks) fullAssistantText sent =
     (let token = or_str chunk []
      in if token \<noteq> [] then
           stream_loop chunks (fullAssistantText @ token) (sent @ [Delta token])
         else stream_loop chunks fullAssistantText sent)"

text \<open>The frame of the inner catch: \<^verbatim>\<open>{type: 'error', message: err?.message || 'processing_failed'}\<close>.\<close>

definition stream_error_frame :: "js_error \<Rightarrow> frame" where
  "stream_error_frame err = Error_frame None (or_str (err_message err) ''processing_failed'')"

text \<open>The frames of the synthesis step: the audio when there is some, a warning when it throws.\<close>

definition tts_frames :: "providers \<Rightarrow> string \<Rightarrow> frame list" where
  "tts_frames env fullAssistantText =
     (case speech env fullAssistantText of
        Inr base64Audio \<Rightarrow> if base64Audio \<noteq> [] then [Tts base64Audio] else []
      | Inl ttsErr \<Rightarrow> [Tts_error (or_str (err_message ttsErr) (err_name ttsErr))])"

definition streaming :: "config \<Rightarrow> providers \<Rightarrow> ctx \<Rightarrow> response \<times> call list" where
  "streaming cfg env c =
     (case chat_stream env (c_messages c) of
        Inl err \<Rightarrow> (Sse 200 [stream_error_frame err] True, [Chat_stream (c_messages c)])
      | Inr (chunks, failure) \<Rightarrow>
          (case stream_loop chunks [] [] of
             (fullAssistantText, sent) \<Rightarrow>
               (case failure of
                  Some err \<Rightarrow>
                    (Sse 200 (sent @ [stream_error_frame err]) True,
                     [Chat_stream (c_messages c)])
                | None \<Rightarrow>
                    (case persist cfg env c fullAssistantText of
                       (written, writes) \<Rightarrow>
                         (Sse 200
                            (sent @ [Message_end] @ tts_frames env fullAssistantText @
                             (if written then [] else [Warn ''history_write_failed'']) @
                             [Done (c_userText c) fullAssistantText])
                            True,
                          [Chat_stream (c_messages c), Speech fullAssistantText] @ writes)))))"

subsection \<open>Buffered mode\<close>

definition buffered :: "config \<Rightarrow> providers \<Rightarrow> ctx \<Rightarrow> response \<times> call list" where
  "buffered cfg env c =
     (case responses_create env (c_messages c) of
        Inl err \<Rightarrow> (outer_catch err, [Responses (c_messages c)])
      | Inr output_text \<Rightarrow>
          (let assistantText = trim (or_str output_text []);
               base64Audio = (case speech env assistantText of Inr b \<Rightarrow> b | Inl ttsErr \<Rightarrow> [])
           in (Json 200
                 (Answer_body (c_conversationId c) (c_userText c) assistantText base64Audio),
               [Responses (c_messages c), Speech assistantText] @
               snd (persist cfg env c assistantText))))"

subsection \<open>The handler and the server\<close>

text \<open>
  How a validation error is answered:
  \<^verbatim>\<open>wantsStream ? sseError(res, code, error, message) : res.status(code).json({error, message})\<close>.
\<close>

definition reject :: "bool \<Rightarrow> nat \<Rightarrow> string \<Rightarrow> string \<Rightarrow> response" where
  "reject stream code err msg =
     (if stream then sseError code err msg else Json code (Error_body err msg))"

definition ask :: "config \<Rightarrow> providers \<Rightarrow> request \<Rightarrow> decoded option \<Rightarrow> response \<times> call list" where
  "ask cfg env req firebaseUser =
     (case prepare cfg env req firebaseUser of
        (Inl (Invalid code err msg), cs) \<Rightarrow> (reject (wantsStream req) code err msg, cs)
      | (Inl (Thrown e), cs) \<Rightarrow> (outer_catch e, cs)
      | (Inr c, cs) \<Rightarrow>
          (case (if wantsStream req then streaming cfg env c else buffered cfg env c) of
             (res, cs') \<Rightarrow> (res, cs @ cs')))"

text \<open>A request runs through the middleware, then through the route.\<close>

definition serve :: "config \<Rightarrow> providers \<Rightarrow> request \<Rightarrow> response \<times> call list" where
  "serve cfg env req =
     (case verifyFirebaseToken cfg env req of
        (firebaseUser, vs) \<Rightarrow>
          (case ask cfg env req firebaseUser of (res, cs) \<Rightarrow> (res, vs @ cs)))"

text \<open>
  The calls to the transcription, generation, synthesis and storage providers: every
  call but the verification of the credential.
\<close>

fun is_provider_call :: "call \<Rightarrow> bool" where
  "is_provider_call (Verify tok) = False"
| "is_provider_call c = True"

definition provider_calls :: "call list \<Rightarrow> call list" where
  "provider_calls cs = filter is_provider_call cs"

text \<open>The call to the generation provider in each mode.\<close>

definition generation_call :: "bool \<Rightarrow> jsval list \<Rightarrow> call" where
  "generation_call stream msgs = (if stream then Chat_stream msgs else Responses msgs)"

section \<open>Vocabulary of the properties\<close>

text \<open>The tokens of a stream: the content of each chunk, empty where a chunk has none.\<close>

definition tokens :: "string option list \<Rightarrow> string list" where
  "tokens chunks = map (\<lambda>chunk. or_str chunk []) chunks"

text \<open>The frames that report the outcome of the synthesis step.\<close>

fun is_synthesis_frame :: "frame \<Rightarrow> bool" where
  "is_synthesis_frame (Tts b) = True"
| "is_synthesis_frame (Tts_error m) = True"
| "is_synthesis_frame f = False"

text \<open>
  The frame sequence as the specification words it for a streamed generation with tokens
  \<open>ts\<close>: delta frames whose payloads reconstruct the tokens, then exactly one
  end-of-message frame, then zero or one synthesis frame, then exactly one done frame whose
  assistant text is the concatenation of the tokens, and nothing else, on a closed channel.
  A synthesis frame is read generously: the audio frame or the \<open>tts_error\<close> frame.
\<close>

fun is_delta :: "frame \<Rightarrow> bool" where
  "is_delta (Delta t) = True"
| "is_delta f = False"

fun delta_payload :: "frame \<Rightarrow> string" where
  "delta_payload (Delta t) = t"
| "delta_payload f = []"

fun after_message_end :: "string \<Rightarrow> frame list \<Rightarrow> bool" where
  "after_message_end full [Done transcript txt] = (txt = full)"
| "after_message_end full [s, Done transcript txt] = (is_synthesis_frame s \<and> txt = full)"
| "after_message_end full fs = False"

definition claimed_stream_shape :: "string list \<Rightarrow> response \<Rightarrow> bool" where
  "claimed_stream_shape ts res =
     (case res of
        Json code b \<Rightarrow> False
      | Sse code fs closed \<Rightarrow>
          closed \<and>
          concat (map delta_payload (takeWhile is_delta fs)) = concat ts \<and>
          (case dropWhile is_delta fs of
             Message_end # rest \<Rightarrow> after_message_end (concat ts) rest
           | _ \<Rightarrow> False))"

text \<open>
  No identity is verified for a request: it carries no bearer credential, or the Admin SDK
  is not initialised, or the verification of the credential fails.
\<close>

definition no_verified_identity :: "config \<Rightarrow> providers \<Rightarrow> request \<Rightarrow> bool" where
  "no_verified_identity cfg env req =
     (case bearer_token (or_str (authorization req) []) of
        None \<Rightarrow> True
      | Some tok \<Rightarrow> \<not> adminApp cfg \<or> isl (verifyIdToken env tok))"

text \<open>
  A body field on which \<^verbatim>\<open>(body.f || '').trim()\<close> does not throw: a string, or a falsy
  value (absent, null, false, 0).
\<close>

fun string_or_falsy :: "jsval \<Rightarrow> bool" where
  "string_or_falsy (JStr s) = True"
| "string_or_falsy v = (\<not> truthy v)"

definition well_typed_fields :: "req_body \<Rightarrow> bool" where
  "well_typed_fields b =
     (string_or_falsy (b_answerLanguage b) \<and> string_or_falsy (b_speakLanguage b) \<and>
      string_or_falsy (b_conversationId b) \<and> string_or_falsy (b_uid b))"

section \<open>Example requests and environments\<close>

text \<open>Concrete inputs on which the properties below are exercised.\<close>

definition boom :: js_error where
  "boom = \<lparr> err_name = ''Error'', err_api_message = None, err_message = Some ''boom'' \<rparr>"

definition rate_limited :: js_error where
  "rate_limited =
     \<lparr> err_name = ''Error'', err_api_message = Some ''Rate limit reached'',
       err_message = Some ''429 Rate limit reached'' \<rparr>"

definition too_short :: js_error where
  "too_short =
     \<lparr> err_name = ''Error'', err_api_message = Some ''Audio file is too short.'',
       err_message = Some ''400 Audio file is too short.'' \<rparr>"

definition bad_language :: js_error where
  "bad_language =
     \<lparr> err_name = ''Error'', err_api_message = None,
       err_message = Some ''400 Invalid language code. Use the ISO-639-1 format.'' \<rparr>"

definition cfg_plain :: config where
  "cfg_plain = \<lparr> adminApp = True, CLEAN_TRANSCRIPT = False, STT_MODEL = ''whisper-1'' \<rparr>"

definition cfg_clean :: config where
  "cfg_clean = cfg_plain \<lparr> CLEAN_TRANSCRIPT := True \<rparr>"

definition alice :: decoded where
  "alice = \<lparr> d_uid = ''alice'' \<rparr>"

definition env_ok :: providers where
  "env_ok =
     \<lparr> JSON_parse = (\<lambda>s. None),
       verifyIdToken = (\<lambda>tok. Inr alice),
       transcribe = (\<lambda>a. Inr (Some ''hello'')),
       responses_create = (\<lambda>m. Inr (Some ''Four!'')),
       chat_stream = (\<lambda>m. Inr ([Some ''Fo'', None, Some ''ur!''], None)),
       speech = (\<lambda>t. Inr ''QUJD''),
       fs_set = (\<lambda>u c. None),
       fs_add = (\<lambda>u c t. None) \<rparr>"

definition env_tts_fails :: providers where
  "env_tts_fails = env_ok \<lparr> speech := (\<lambda>t. Inl boom) \<rparr>"

definition env_store_fails :: providers where
  "env_store_fails = env_ok \<lparr> fs_add := (\<lambda>u c t. Some boom) \<rparr>"

definition env_generation_fails :: providers where
  "env_generation_fails =
     env_ok \<lparr> responses_create := (\<lambda>m. Inl rate_limited), chat_stream := (\<lambda>m. Inl rate_limited) \<rparr>"

definition env_stt_fails :: "js_error \<Rightarrow> providers" where
  "env_stt_fails e = env_ok \<lparr> transcribe := (\<lambda>a. Inl e) \<rparr>"

definition env_silence :: providers where
  "env_silence = env_ok \<lparr> transcribe := (\<lambda>a. Inr (Some ''  '')) \<rparr>"

definition env_cleanup_fails :: providers where
  "env_cleanup_fails =
     env_ok \<lparr> responses_create :=
                (\<lambda>m. if m = cleanup_input ''English'' ''What is 2+2?'' then Inl boom
                      else Inr (Some ''Four!'')) \<rparr>"

definition env_cleanup_empty :: providers where
  "env_cleanup_empty =
     env_ok \<lparr> responses_create :=
                (\<lambda>m. if m = cleanup_input ''English'' ''What is 2+2?'' then Inr (Some [])
                      else Inr (Some ''Four!'')) \<rparr>"

definition env_cleanup_fixes :: providers where
  "env_cleanup_fixes =
     env_ok \<lparr> responses_create :=
                (\<lambda>m. if m = cleanup_input ''English'' ''What is 2+2?''
                      then Inr (Some '' What is 2 + 2? '')
                      else Inr (Some ''Four!'')) \<rparr>"

definition env_bad_token :: providers where
  "env_bad_token = env_ok \<lparr> verifyIdToken := (\<lambda>tok. Inl boom) \<rparr>"

definition ask_body :: req_body where
  "ask_body =
     \<lparr> b_answerLanguage = JStr ''English'', b_speakLanguage = JStr ''English'',
       b_conversationId = JStr ''c1'', b_uid = JStr ''alice'', b_history = JUndefined,
       b_text = JStr ''What is 2+2?'' \<rparr>"

definition text_request :: request where
  "text_request =
     \<lparr> query_stream = None, accept = None, authorization = None, body = ask_body,
       req_file = None \<rparr>"

definition stream_request :: request where
  "stream_request = text_request \<lparr> query_stream := Some ''1'' \<rparr>"

definition mismatch_request :: request where
  "mismatch_request =
     stream_request \<lparr> authorization := Some ''Bearer tok123'',
                      body := ask_body \<lparr> b_uid := JStr '' bob '' \<rparr> \<rparr>"

definition forged_request :: request where
  "forged_request = text_request \<lparr> authorization := Some ''Bearer forged'' \<rparr>"

definition small_audio_request :: request where
  "small_audio_request =
     text_request \<lparr> req_file := Some \<lparr> file_buffer = [0x1A, 0x45, 0xDF, 0xA3], file_size = 4 \<rparr> \<rparr>"

definition silent_audio :: upload where
  "silent_audio = \<lparr> file_buffer = replicate 5000 0, file_size = 5000 \<rparr>"

definition audio_request :: request where
  "audio_request = text_request \<lparr> req_file := Some silent_audio \<rparr>"

definition twenty_turns :: "jsval list" where
  "twenty_turns =
     [JNum 1, JNum 2, JNum 3, JNum 4, JNum 5, JNum 6, JNum 7, JNum 8, JNum 9, JNum 10,
      JNum 11, JNum 12, JNum 13, JNum 14, JNum 15, JNum 16, JNum 17, JNum 18, JNum 19, JNum 20]"

definition history_request :: request where
  "history_request = text_request \<lparr> body := ask_body \<lparr> b_history := JArr twenty_turns \<rparr> \<rparr>"

definition english :: "string \<Rightarrow> string \<Rightarrow> fields" where
  "english conversationId uid =
     \<lparr> f_answerLanguage = ''English'', f_speakLanguage = ''English'',
       f_conversationId = conversationId, f_uid = uid \<rparr>"

definition ask_ctx :: ctx where
  "ask_ctx =
     \<lparr> c_answerLanguage = ''English'', c_speakLanguage = ''English'', c_conversationId = ''c1'',
       c_uid = ''alice'', c_userText = ''What is 2+2?'',
       c_messages = compose_messages ''English'' [] ''What is 2+2?'' \<rparr>"

definition history_ctx :: ctx where
  "history_ctx =
     \<lparr> c_answerLanguage = ''English'', c_speakLanguage = ''English'', c_conversationId = ''c1'',
       c_uid = ''alice'', c_userText = ''What is 2+2?'',
       c_messages = compose_messages ''English'' twenty_turns ''What is 2+2?'' \<rparr>"

definition ill_typed_request :: request where
  "ill_typed_request =
     stream_request \<lparr> body := ask_body \<lparr> b_conversationId := JStr [], b_uid := JNum 5 \<rparr> \<rparr>"

definition mismatch_without_conversation :: request where
  "mismatch_without_conversation =
     mismatch_request \<lparr> body := ask_body \<lparr> b_conversationId := JStr [], b_uid := JStr ''bob'' \<rparr> \<rparr>"

section \<open>Properties\<close>

subsection \<open>Strings, the stream loop, the history window\<close>

lemma trim_trim: "trim (trim s) = trim s"
proof -
  define a where "a = dropWhile is_space s"
  define b where "b = dropWhile is_space (rev a)"
  have t: "trim s = rev b" by (simp add: trim_def a_def b_def)
  have "dropWhile is_space (rev b) = rev b"
  proof (cases "b = []")
    case True then show ?thesis by simp
  next
    case False
    have suf: "\<exists>p. rev a = p @ b"
      unfolding b_def by (metis takeWhile_dropWhile_id)
    then obtain p where p: "rev a = p @ b" by blast
    then have a: "a = rev b @ rev p" by (metis rev_append rev_rev_ident)
    from False have "rev b \<noteq> []" by simp
    then obtain x xs where x: "rev b = x # xs" by (cases "rev b") auto
    with a have "a = x # (xs @ rev p)" by simp
    then have "\<not> is_space x" unfolding a_def
      by (metis hd_dropWhile list.sel(1) list.distinct(1))
    with x show ?thesis by simp
  qed
  moreover have "dropWhile is_space b = b" unfolding b_def by simp
  ultimately have "trim (rev b) = rev b" by (simp add: trim_def)
  with t show ?thesis by simp
qed

lemma starts_with_iff: "starts_with s p \<longleftrightarrow> (\<exists>t. s = p @ t)"
  by (induction s p rule: starts_with.induct) auto

lemma str_includes_iff: "str_includes s p \<longleftrightarrow> (\<exists>a b. s = a @ p @ b)"
proof (induction s)
  case Nil then show ?case by auto
next
  case (Cons c cs)
  show ?case
  proof
    assume "str_includes (c # cs) p"
    then consider "starts_with (c # cs) p" | "str_includes cs p" by auto
    then show "\<exists>a b. c # cs = a @ p @ b"
    proof cases
      case 1 then obtain t where "c # cs = p @ t" by (auto simp: starts_with_iff)
      then have "c # cs = [] @ p @ t" by simp
      then show ?thesis by blast
    next
      case 2 with Cons obtain a b where "cs = a @ p @ b" by blast
      then have "c # cs = (c # a) @ p @ b" by simp
      then show ?thesis by blast
    qed
  next
    assume "\<exists>a b. c # cs = a @ p @ b"
    then obtain a b where ab: "c # cs = a @ p @ b" by blast
    show "str_includes (c # cs) p"
    proof (cases a)
      case Nil with ab have "starts_with (c # cs) p" by (auto simp: starts_with_iff)
      then show ?thesis by simp
    next
      case (Cons x a') with ab have "cs = a' @ p @ b" by simp
      with Cons.IH have "str_includes cs p" by blast
      then show ?thesis by simp
    qed
  qed
qed

lemma str_includes_map: "str_includes s p \<Longrightarrow> str_includes (map f s) (map f p)"
  unfolding str_includes_iff by (metis map_append)

lemma lower_fixed:
  "toLowerCase ''shorter than'' = ''shorter than''"
  "toLowerCase ''too short'' = ''too short''"
  "toLowerCase ''invalid'' = ''invalid''"
  "toLowerCase ''language'' = ''language''"
  by (simp_all add: toLowerCase_def to_lower_def)

lemma str_includes_lower:
  "str_includes s p \<Longrightarrow> toLowerCase p = p \<Longrightarrow> str_includes (toLowerCase s) p"
  using str_includes_map[of s p to_lower] by (simp add: toLowerCase_def)

lemma stream_loop_eq:
  "stream_loop chunks full sent =
     (full @ concat (map (\<lambda>chunk. or_str chunk []) chunks),
      sent @ map Delta (filter (\<lambda>t. t \<noteq> []) (map (\<lambda>chunk. or_str chunk []) chunks)))"
  by (induction chunks arbitrary: full sent) (auto simp: Let_def)

lemma concat_nonempty: "concat (filter (\<lambda>t. t \<noteq> []) ts) = concat ts"
  by (induction ts) auto

lemma js_slice_last:
  "js_slice_from (- MAX_TURNS * 2) xs = drop (length xs - 12) xs"
  by (auto simp: js_slice_from_def MAX_TURNS_def Let_def max_def nat_diff_distrib')

subsection \<open>The handler, step by step\<close>

lemma ask_invalid:
  "prepare cfg env req fu = (Inl (Invalid code k m), cs) \<Longrightarrow>
   ask cfg env req fu = (reject (wantsStream req) code k m, cs)"
  by (simp add: ask_def)

lemma reject_observed:
  "status (reject stream code k m) = code \<and> error_kind (reject stream code k m) = Some k"
  by (simp add: reject_def sseError_def)

lemma ask_thrown:
  "prepare cfg env req fu = (Inl (Thrown e), cs) \<Longrightarrow> ask cfg env req fu = (outer_catch e, cs)"
  by (simp add: ask_def)

lemma ask_prepared:
  "prepare cfg env req fu = (Inr c, cs) \<Longrightarrow>
   ask cfg env req fu =
     (fst (if wantsStream req then streaming cfg env c else buffered cfg env c),
      cs @ snd (if wantsStream req then streaming cfg env c else buffered cfg env c))"
  by (simp add: ask_def split: prod.splits)

lemma prepare_invalid:
  "parse_fields (body req) = Inr f \<Longrightarrow> validate f fu = Some a \<Longrightarrow>
   prepare cfg env req fu = (Inl a, [])"
  by (simp add: prepare_def)

lemma streaming_first_call:
  "\<exists>rest. snd (streaming cfg env c) = Chat_stream (c_messages c) # rest"
  by (auto simp: streaming_def split: sum.splits prod.splits option.splits)

lemma buffered_first_call:
  "\<exists>rest. snd (buffered cfg env c) = Responses (c_messages c) # rest"
  by (auto simp: buffered_def Let_def split: sum.splits prod.splits option.splits)

lemma prepare_messages:
  assumes "prepare cfg env req fu = (Inr c, cs)"
  shows "c_messages c =
           compose_messages (c_answerLanguage c) (parse_history env (b_history (body req)))
             (c_userText c)"
  using assms by (auto simp: prepare_def split: sum.splits option.splits prod.splits)

lemma provider_calls_append: "provider_calls (xs @ ys) = provider_calls xs @ provider_calls ys"
  by (simp add: provider_calls_def)

lemma verify_calls: "provider_calls (snd (verifyFirebaseToken cfg env req)) = []"
  by (auto simp: verifyFirebaseToken_def provider_calls_def split: option.splits sum.splits)

lemma serve_eq:
  "serve cfg env req =
     (fst (ask cfg env req (fst (verifyFirebaseToken cfg env req))),
      snd (verifyFirebaseToken cfg env req) @ snd (ask cfg env req (fst (verifyFirebaseToken cfg env req))))"
  by (simp add: serve_def split: prod.splits)

lemma outer_catch_status: "400 \<le> status (outer_catch e)"
  by (simp add: outer_catch_def Let_def)

lemma prepare_parse_error:
  "parse_fields (body req) = Inl e \<Longrightarrow> prepare cfg env req fu = (Inl (Thrown e), [])"
  by (simp add: prepare_def)

lemma parse_fields_uid:
  "parse_fields b = Inr f \<Longrightarrow> trim_field ''uid'' (b_uid b) = Inr (f_uid f)"
  by (auto simp: parse_fields_def split: sum.splits)

lemma gate_conversation:
  assumes "parse_fields (body req) = Inr f" "f_conversationId f = []"
  shows "ask cfg env req fu =
           (reject (wantsStream req) 400 ''missing_conversation'' ''No conversationId.'', [])"
proof -
  have "prepare cfg env req fu =
          (Inl (Invalid 400 ''missing_conversation'' ''No conversationId.''), [])"
    using assms by (simp add: prepare_def validate_def)
  then show ?thesis by (rule ask_invalid)
qed

lemma gate_language:
  assumes "parse_fields (body req) = Inr f" "f_conversationId f \<noteq> []"
      and "f_answerLanguage f = [] \<or> f_speakLanguage f = []"
  shows "ask cfg env req fu =
           (reject (wantsStream req) 400 ''missing_language''
              ''Please select both Speaking and Answer languages.'', [])"
proof -
  have "prepare cfg env req fu =
          (Inl (Invalid 400 ''missing_language''
                  ''Please select both Speaking and Answer languages.''), [])"
    using assms by (simp add: prepare_def validate_def)
  then show ?thesis by (rule ask_invalid)
qed

lemma gate_identity:
  assumes "parse_fields (body req) = Inr f" "f_conversationId f \<noteq> []"
      and "f_answerLanguage f \<noteq> []" "f_speakLanguage f \<noteq> []"
      and "uid_mismatch (f_uid f) fu"
  shows "ask cfg env req fu =
           (reject (wantsStream req) 401 ''unauthenticated'' ''UID does not match.'', [])"
proof -
  have "prepare cfg env req fu =
          (Inl (Invalid 401 ''unauthenticated'' ''UID does not match.''), [])"
    using assms by (simp add: prepare_def validate_def)
  then show ?thesis by (rule ask_invalid)
qed

lemma validate_passes:
  "validate f fu = None \<longleftrightarrow>
     f_conversationId f \<noteq> [] \<and> f_answerLanguage f \<noteq> [] \<and> f_speakLanguage f \<noteq> [] \<and>
     \<not> uid_mismatch (f_uid f) fu"
  by (simp add: validate_def)

lemma resolve_no_input:
  assumes "\<not> qualifying_audio req" "\<not> qualifying_text req"
  shows "resolve_input cfg env req sl =
           (Inl (Invalid 400 ''no_input'' ''No valid audio or text provided.''), [])"
  using assms
  by (auto simp: resolve_input_def text_input_def qualifying_audio_def qualifying_text_def
        split: option.splits jsval.splits)

lemma gate_input:
  assumes "parse_fields (body req) = Inr f" "validate f fu = None"
      and "\<not> qualifying_audio req" "\<not> qualifying_text req"
  shows "ask cfg env req fu =
           (reject (wantsStream req) 400 ''no_input'' ''No valid audio or text provided.'', [])"
proof -
  have "prepare cfg env req fu =
          (Inl (Invalid 400 ''no_input'' ''No valid audio or text provided.''), [])"
    using assms(1,2) resolve_no_input[OF assms(3,4)] by (simp add: prepare_def)
  then show ?thesis by (rule ask_invalid)
qed

subsection \<open>Context assembly\<close>

text \<open>
  \<^bold>\<open>C7.\<close> Whenever a request reaches the generation step, the message list handed to
  the generation provider is the system instruction, then the last 12 entries of the
  caller-supplied history (all of it when it has at most 12) in their order, then the new
  user turn; that list is the argument of the generation call in either mode. With 20
  supplied entries the first 8 are dropped and the last 12 are forwarded.
\<close>

theorem history_window:
  assumes "prepare cfg env req firebaseUser = (Inr c, cs)"
  shows "c_messages c =
           chat_message ''system'' (systemPrompt (c_answerLanguage c)) #
           drop (length (parse_history env (b_history (body req))) - 12)
             (parse_history env (b_history (body req))) @
           [chat_message ''user'' (c_userText c)]
       \<and> generation_call (wantsStream req) (c_messages c)
           \<in> set (snd (ask cfg env req firebaseUser))
       \<and> length (drop (length (parse_history env (b_history (body req))) - 12)
                   (parse_history env (b_history (body req))))
           = min 12 (length (parse_history env (b_history (body req))))
       \<and> (length (parse_history env (b_history (body req))) = 20 \<longrightarrow>
            c_messages c =
              chat_message ''system'' (systemPrompt (c_answerLanguage c)) #
              drop 8 (parse_history env (b_history (body req))) @
              [chat_message ''user'' (c_userText c)])"
proof -
  let ?h = "parse_history env (b_history (body req))"
  have m: "c_messages c =
           chat_message ''system'' (systemPrompt (c_answerLanguage c)) #
           drop (length ?h - 12) ?h @ [chat_message ''user'' (c_userText c)]"
    using prepare_messages[OF assms] using js_slice_last[of ?h] by (simp add: compose_messages_def Let_def MAX_TURNS_def)
  have g: "generation_call (wantsStream req) (c_messages c) \<in> set (snd (ask cfg env req firebaseUser))"
    using streaming_first_call[of cfg env c] buffered_first_call[of cfg env c]
    by (auto simp: ask_prepared[OF assms] generation_call_def)
  have l: "length (drop (length ?h - 12) ?h) = min 12 (length ?h)" by auto
  have t: "length ?h = 20 \<longrightarrow> c_messages c =
              chat_message ''system'' (systemPrompt (c_answerLanguage c)) #
              drop 8 ?h @ [chat_message ''user'' (c_userText c)]"
    using m by auto
  from m g l t show ?thesis by blast
qed

theorem history_window_witness:
  "prepare cfg_plain env_ok history_request None = (Inr history_ctx, [])
   \<and> length (parse_history env_ok (b_history (body history_request))) = 20
   \<and> c_messages history_ctx =
       chat_message ''system'' (systemPrompt ''English'') #
       [JNum 9, JNum 10, JNum 11, JNum 12, JNum 13, JNum 14, JNum 15, JNum 16, JNum 17,
        JNum 18, JNum 19, JNum 20] @
       [chat_message ''user'' ''What is 2+2?'']
   \<and> Responses (c_messages history_ctx) \<in> set (snd (ask cfg_plain env_ok history_request None))"
proof -
  have p: "prepare cfg_plain env_ok history_request None = (Inr history_ctx, [])"
    by code_simp
  have h: "parse_history env_ok (b_history (body history_request)) = twenty_turns"
    by code_simp
  have l: "length twenty_turns = 20"
    by code_simp
  have d: "drop 8 twenty_turns =
       [JNum 9, JNum 10, JNum 11, JNum 12, JNum 13, JNum 14, JNum 15, JNum 16, JNum 17,
        JNum 18, JNum 19, JNum 20]"
    by code_simp
  have a: "c_answerLanguage history_ctx = ''English''" "c_userText history_ctx = ''What is 2+2?''"
    by (simp_all add: history_ctx_def)
  have w: "wantsStream history_request = False"
    by code_simp
  note hw = history_window[OF p]
  from hw[THEN conjunct1] have m:
    "c_messages history_ctx =
       chat_message ''system'' (systemPrompt ''English'') # drop 8 twenty_turns @
       [chat_message ''user'' ''What is 2+2?'']"
    by (simp add: h l a)
  from hw[THEN conjunct2, THEN conjunct1] have g:
    "Responses (c_messages history_ctx) \<in> set (snd (ask cfg_plain env_ok history_request None))"
    by (simp add: w generation_call_def)
  from m d have m': "c_messages history_ctx =
       chat_message ''system'' (systemPrompt ''English'') #
       [JNum 9, JNum 10, JNum 11, JNum 12, JNum 13, JNum 14, JNum 15, JNum 16, JNum 17,
        JNum 18, JNum 19, JNum 20] @
       [chat_message ''user'' ''What is 2+2?'']"
    by simp
  from p h l m' g show ?thesis by (intro conjI) simp_all
qed

subsection \<open>The validation gate\<close>

lemma gate_order_well_typed:
  assumes "parse_fields (body req) = Inr f"
  shows "(f_conversationId f = [] \<longrightarrow>
            ask cfg env req firebaseUser =
              (reject (wantsStream req) 400 ''missing_conversation'' ''No conversationId.'', []))
       \<and> (f_conversationId f \<noteq> [] \<and> (f_answerLanguage f = [] \<or> f_speakLanguage f = []) \<longrightarrow>
            ask cfg env req firebaseUser =
              (reject (wantsStream req) 400 ''missing_language''
                 ''Please select both Speaking and Answer languages.'', []))
       \<and> (f_conversationId f \<noteq> [] \<and> f_answerLanguage f \<noteq> [] \<and> f_speakLanguage f \<noteq> [] \<and>
          uid_mismatch (f_uid f) firebaseUser \<longrightarrow>
            ask cfg env req firebaseUser =
              (reject (wantsStream req) 401 ''unauthenticated'' ''UID does not match.'', []))
       \<and> (f_conversationId f \<noteq> [] \<and> f_answerLanguage f \<noteq> [] \<and> f_speakLanguage f \<noteq> [] \<and>
          \<not> uid_mismatch (f_uid f) firebaseUser \<and>
          \<not> qualifying_audio req \<and> \<not> qualifying_text req \<longrightarrow>
            ask cfg env req firebaseUser =
              (reject (wantsStream req) 400 ''no_input'' ''No valid audio or text provided.'', []))
       \<and> (snd (ask cfg env req firebaseUser) \<noteq> [] \<longrightarrow>
            f_conversationId f \<noteq> [] \<and> f_answerLanguage f \<noteq> [] \<and> f_speakLanguage f \<noteq> [] \<and>
            \<not> uid_mismatch (f_uid f) firebaseUser \<and>
            (qualifying_audio req \<or> qualifying_text req))"
proof -
  let ?ask = "ask cfg env req firebaseUser"
  let ?ws = "wantsStream req"
  note a = gate_conversation[OF assms, of cfg env firebaseUser]
  note b = gate_language[OF assms, of cfg env firebaseUser]
  note c = gate_identity[OF assms, of firebaseUser cfg env]
  have d: "?ask = (reject ?ws 400 ''no_input'' ''No valid audio or text provided.'', [])"
    if "f_conversationId f \<noteq> []" "f_answerLanguage f \<noteq> []" "f_speakLanguage f \<noteq> []"
       "\<not> uid_mismatch (f_uid f) firebaseUser" "\<not> qualifying_audio req" "\<not> qualifying_text req"
    using gate_input[OF assms _ that(5,6), of firebaseUser cfg env] that(1-4)
    by (simp add: validate_passes)
  have e: "f_conversationId f \<noteq> [] \<and> f_answerLanguage f \<noteq> [] \<and> f_speakLanguage f \<noteq> [] \<and>
            \<not> uid_mismatch (f_uid f) firebaseUser \<and>
            (qualifying_audio req \<or> qualifying_text req)"
    if calls: "snd ?ask \<noteq> []"
  proof -
    have 1: "f_conversationId f \<noteq> []"
    proof
      assume "f_conversationId f = []"
      from a[OF this] calls show False by simp
    qed
    have 2: "f_answerLanguage f \<noteq> [] \<and> f_speakLanguage f \<noteq> []"
    proof (rule ccontr)
      assume "\<not> ?thesis"
      then have "f_answerLanguage f = [] \<or> f_speakLanguage f = []" by simp
      from b[OF 1 this] calls show False by simp
    qed
    have 3: "\<not> uid_mismatch (f_uid f) firebaseUser"
    proof
      assume "uid_mismatch (f_uid f) firebaseUser"
      with c 1 2 have "?ask = (reject ?ws 401 ''unauthenticated'' ''UID does not match.'', [])"
        by simp
      with calls show False by simp
    qed
    have 4: "qualifying_audio req \<or> qualifying_text req"
    proof (rule ccontr)
      assume "\<not> ?thesis"
      with d 1 2 3
      have "?ask = (reject ?ws 400 ''no_input'' ''No valid audio or text provided.'', [])"
        by simp
      with calls show False by simp
    qed
    from 1 2 3 4 show ?thesis by simp
  qed
  show ?thesis
    apply (intro conjI impI)
    subgoal by (rule a)
    subgoal using b by simp
    subgoal using c by simp
    subgoal using d by simp
    subgoal using e by simp
    subgoal using e by simp
    subgoal using e by simp
    subgoal using e by simp
    subgoal using e by simp
    done
qed

lemma trim_field_error:
  "trim_field name v = Inl e \<Longrightarrow> e = type_error name"
  by (cases v) (auto split: if_splits)

lemma parse_fields_error:
  assumes "parse_fields b = Inl e"
  shows "e \<in> set [type_error ''answerLanguage'', type_error ''speakLanguage'',
                  type_error ''conversationId'', type_error ''uid'']"
  using assms
  by (auto simp: parse_fields_def split: sum.splits dest: trim_field_error)

lemma outer_catch_type_error:
  "outer_catch (type_error ''answerLanguage'') =
     Json 500 (Error_body ''processing_failed'' ''Something went wrong while processing input.'')"
  "outer_catch (type_error ''speakLanguage'') =
     Json 500 (Error_body ''processing_failed'' ''Something went wrong while processing input.'')"
  "outer_catch (type_error ''conversationId'') =
     Json 500 (Error_body ''processing_failed'' ''Something went wrong while processing input.'')"
  "outer_catch (type_error ''uid'') =
     Json 500 (Error_body ''processing_failed'' ''Something went wrong while processing input.'')"
  by code_simp+

text \<open>
  A truthy identifier field that is not a string (a number, an array, an object) makes
  \<^verbatim>\<open>.trim()\<close> throw before the first check: the request is answered 500
  \<open>processing_failed\<close> as JSON in either mode, and no provider is called.
\<close>

lemma ill_typed_field:
  assumes "parse_fields (body req) = Inl e"
  shows "ask cfg env req fu =
           (Json 500 (Error_body ''processing_failed''
                        ''Something went wrong while processing input.''), [])"
proof -
  from parse_fields_error[OF assms] outer_catch_type_error
  have "outer_catch e =
          Json 500 (Error_body ''processing_failed'' ''Something went wrong while processing input.'')"
    by auto
  with assms show ?thesis by (simp add: prepare_parse_error ask_thrown)
qed

lemma trim_field_typed: "isl (trim_field name v) \<longleftrightarrow> \<not> string_or_falsy v"
  by (cases v) auto

lemma parse_fields_typed: "isl (parse_fields b) \<longleftrightarrow> \<not> well_typed_fields b"
proof -
  have t: "string_or_falsy v \<longleftrightarrow> (\<exists>s. trim_field name v = Inr s)" for name v
    using trim_field_typed[of name v] by (cases "trim_field name v") auto
  show ?thesis
    unfolding well_typed_fields_def
      t[of "b_answerLanguage b" "''answerLanguage''"] t[of "b_speakLanguage b" "''speakLanguage''"]
      t[of "b_conversationId b" "''conversationId''"] t[of "b_uid b" "''uid''"]
    by (auto simp: parse_fields_def split: sum.splits)
qed

text \<open>
  \<^bold>\<open>C3\<close> (amended). Every request is settled in one of two ways. When one of the fields
  \<^verbatim>\<open>answerLanguage\<close>, \<^verbatim>\<open>speakLanguage\<close>, \<^verbatim>\<open>conversationId\<close>, \<^verbatim>\<open>uid\<close> is truthy and not a
  string, trimming it throws before the first check: the answer is 500 \<open>processing_failed\<close>,
  as a JSON body in either mode, and no provider is called. Otherwise the four fields are
  strings or falsy, and the checks run in the order (a) conversation identifier, (b) both
  languages, (c) declared against verified identity, (d) input, and the first that fails
  decides the answer (a field is present and non-empty when something is left of it after
  trimming): \<open>missing_conversation\<close> (400), \<open>missing_language\<close> (400), \<open>unauthenticated\<close>
  (401), \<open>no_input\<close> (400). No provider has been called when a check fails; conversely, if
  any provider call was made, all four checks passed. The rejection carries the same status,
  error kind and message in both modes: one terminal error frame on a closed stream, or one
  JSON body.
\<close>

theorem validation_gate_order:
  "(\<not> well_typed_fields (body req) \<longrightarrow>
      ask cfg env req firebaseUser =
        (Json 500 (Error_body ''processing_failed''
                     ''Something went wrong while processing input.''), []))
   \<and> (well_typed_fields (body req) \<longrightarrow> (\<exists>f. parse_fields (body req) = Inr f))
   \<and> (\<forall>f. parse_fields (body req) = Inr f \<longrightarrow>
        (f_conversationId f = [] \<longrightarrow>
            ask cfg env req firebaseUser =
              (reject (wantsStream req) 400 ''missing_conversation'' ''No conversationId.'', []))
        \<and> (f_conversationId f \<noteq> [] \<and> (f_answerLanguage f = [] \<or> f_speakLanguage f = []) \<longrightarrow>
            ask cfg env req firebaseUser =
              (reject (wantsStream req) 400 ''missing_language''
                 ''Please select both Speaking and Answer languages.'', []))
        \<and> (f_conversationId f \<noteq> [] \<and> f_answerLanguage f \<noteq> [] \<and> f_speakLanguage f \<noteq> [] \<and>
           uid_mismatch (f_uid f) firebaseUser \<longrightarrow>
            ask cfg env req firebaseUser =
              (reject (wantsStream req) 401 ''unauthenticated'' ''UID does not match.'', []))
        \<and> (f_conversationId f \<noteq> [] \<and> f_answerLanguage f \<noteq> [] \<and> f_speakLanguage f \<noteq> [] \<and>
           \<not> uid_mismatch (f_uid f) firebaseUser \<and>
           \<not> qualifying_audio req \<and> \<not> qualifying_text req \<longrightarrow>
            ask cfg env req firebaseUser =
              (reject (wantsStream req) 400 ''no_input'' ''No valid audio or text provided.'', []))
        \<and> (snd (ask cfg env req firebaseUser) \<noteq> [] \<longrightarrow>
            f_conversationId f \<noteq> [] \<and> f_answerLanguage f \<noteq> [] \<and> f_speakLanguage f \<noteq> [] \<and>
            \<not> uid_mismatch (f_uid f) firebaseUser \<and>
            (qualifying_audio req \<or> qualifying_text req)))
   \<and> (\<forall>stream code kind msg.
        status (reject stream code kind msg) = code \<and>
        error_kind (reject stream code kind msg) = Some kind \<and>
        reject True code kind msg = Sse code [Error_frame (Some kind) msg] True \<and>
        reject False code kind msg = Json code (Error_body kind msg))"
proof -
  have 1: "ask cfg env req firebaseUser =
        (Json 500 (Error_body ''processing_failed''
                     ''Something went wrong while processing input.''), [])"
    if "\<not> well_typed_fields (body req)"
  proof -
    from that have "isl (parse_fields (body req))" by (simp add: parse_fields_typed)
    then obtain e where "parse_fields (body req) = Inl e"
      by (cases "parse_fields (body req)") auto
    then show ?thesis by (rule ill_typed_field)
  qed
  have 2: "\<exists>f. parse_fields (body req) = Inr f" if "well_typed_fields (body req)"
    using that parse_fields_typed[of "body req"] by (cases "parse_fields (body req)") auto
  have 3: "(f_conversationId f = [] \<longrightarrow>
            ask cfg env req firebaseUser =
              (reject (wantsStream req) 400 ''missing_conversation'' ''No conversationId.'', []))
        \<and> (f_conversationId f \<noteq> [] \<and> (f_answerLanguage f = [] \<or> f_speakLanguage f = []) \<longrightarrow>
            ask cfg env req firebaseUser =
              (reject (wantsStream req) 400 ''missing_language''
                 ''Please select both Speaking and Answer languages.'', []))
        \<and> (f_conversationId f \<noteq> [] \<and> f_answerLanguage f \<noteq> [] \<and> f_speakLanguage f \<noteq> [] \<and>
           uid_mismatch (f_uid f) firebaseUser \<longrightarrow>
            ask cfg env req firebaseUser =
              (reject (wantsStream req) 401 ''unauthenticated'' ''UID does not match.'', []))
        \<and> (f_conversationId f \<noteq> [] \<and> f_answerLanguage f \<noteq> [] \<and> f_speakLanguage f \<noteq> [] \<and>
           \<not> uid_mismatch (f_uid f) firebaseUser \<and>
           \<not> qualifying_audio req \<and> \<not> qualifying_text req \<longrightarrow>
            ask cfg env req firebaseUser =
              (reject (wantsStream req) 400 ''no_input'' ''No valid audio or text provided.'', []))
        \<and> (snd (ask cfg env req firebaseUser) \<noteq> [] \<longrightarrow>
            f_conversationId f \<noteq> [] \<and> f_answerLanguage f \<noteq> [] \<and> f_speakLanguage f \<noteq> [] \<and>
            \<not> uid_mismatch (f_uid f) firebaseUser \<and>
            (qualifying_audio req \<or> qualifying_text req))"
    if "parse_fields (body req) = Inr f" for f
    using that by (rule gate_order_well_typed)
  have 4: "\<forall>stream code kind msg.
        status (reject stream code kind msg) = code \<and>
        error_kind (reject stream code kind msg) = Some kind \<and>
        reject True code kind msg = Sse code [Error_frame (Some kind) msg] True \<and>
        reject False code kind msg = Json code (Error_body kind msg)"
    by (simp add: reject_def sseError_def)
  show ?thesis
  proof (intro conjI)
    show "\<not> well_typed_fields (body req) \<longrightarrow>
      ask cfg env req firebaseUser =
        (Json 500 (Error_body ''processing_failed''
                     ''Something went wrong while processing input.''), [])"
      using 1 by (rule impI)
    show "well_typed_fields (body req) \<longrightarrow> (\<exists>f. parse_fields (body req) = Inr f)"
      using 2 by (rule impI)
  next
    show "\<forall>f. parse_fields (body req) = Inr f \<longrightarrow>
        (f_conversationId f = [] \<longrightarrow>
            ask cfg env req firebaseUser =
              (reject (wantsStream req) 400 ''missing_conversation'' ''No conversationId.'', []))
        \<and> (f_conversationId f \<noteq> [] \<and> (f_answerLanguage f = [] \<or> f_speakLanguage f = []) \<longrightarrow>
            ask cfg env req firebaseUser =
              (reject (wantsStream req) 400 ''missing_language''
                 ''Please select both Speaking and Answer languages.'', []))
        \<and> (f_conversationId f \<noteq> [] \<and> f_answerLanguage f \<noteq> [] \<and> f_speakLanguage f \<noteq> [] \<and>
           uid_mismatch (f_uid f) firebaseUser \<longrightarrow>
            ask cfg env req firebaseUser =
              (reject (wantsStream req) 401 ''unauthenticated'' ''UID does not match.'', []))
        \<and> (f_conversationId f \<noteq> [] \<and> f_answerLanguage f \<noteq> [] \<and> f_speakLanguage f \<noteq> [] \<and>
           \<not> uid_mismatch (f_uid f) firebaseUser \<and>
           \<not> qualifying_audio req \<and> \<not> qualifying_text req \<longrightarrow>
            ask cfg env req firebaseUser =
              (reject (wantsStream req) 400 ''no_input'' ''No valid audio or text provided.'', []))
        \<and> (snd (ask cfg env req firebaseUser) \<noteq> [] \<longrightarrow>
            f_conversationId f \<noteq> [] \<and> f_answerLanguage f \<noteq> [] \<and> f_speakLanguage f \<noteq> [] \<and>
            \<not> uid_mismatch (f_uid f) firebaseUser \<and>
            (qualifying_audio req \<or> qualifying_text req))"
      by (intro allI impI) (rule 3)
  next
    show "\<forall>stream code kind msg.
        status (reject stream code kind msg) = code \<and>
        error_kind (reject stream code kind msg) = Some kind \<and>
        reject True code kind msg = Sse code [Error_frame (Some kind) msg] True \<and>
        reject False code kind msg = Json code (Error_body kind msg)"
      by (rule 4)
  qed
qed

text \<open>
  C3 states the order for every request. The four fields are trimmed before the first
  check, so a truthy field that is not a string throws there: with an empty conversation
  identifier and the number 5 as uid, check (a) fails, yet the answer is 500
  \<open>processing_failed\<close>, as a JSON body although the stream was asked for.
\<close>

theorem validation_gate_order_counterexample:
  "trim_field ''conversationId'' (b_conversationId (body ill_typed_request)) = Inr []
   \<and> b_uid (body ill_typed_request) = JNum 5
   \<and> wantsStream ill_typed_request
   \<and> ask cfg_plain env_ok ill_typed_request None =
       (Json 500 (Error_body ''processing_failed'' ''Something went wrong while processing input.''),
        [])
   \<and> ask cfg_plain env_ok (ill_typed_request \<lparr> query_stream := None \<rparr>) None =
       (Json 500 (Error_body ''processing_failed'' ''Something went wrong while processing input.''),
        [])
   \<and> error_kind (fst (ask cfg_plain env_ok ill_typed_request None)) \<noteq> Some ''missing_conversation''"
  by code_simp

theorem validation_gate_order_witness:
  "ask cfg_plain env_ok (text_request \<lparr> body := ask_body \<lparr> b_conversationId := JStr ''  '' \<rparr> \<rparr>) None =
     (Json 400 (Error_body ''missing_conversation'' ''No conversationId.''), [])
   \<and> ask cfg_plain env_ok
       (stream_request \<lparr> body := ask_body \<lparr> b_speakLanguage := JUndefined, b_uid := JStr ''bob'' \<rparr> \<rparr>)
       (Some alice) =
     (Sse 400 [Error_frame (Some ''missing_language'')
                 ''Please select both Speaking and Answer languages.''] True, [])
   \<and> ask cfg_plain env_ok
       (stream_request \<lparr> body := ask_body \<lparr> b_uid := JStr ''bob'', b_text := JNull \<rparr> \<rparr>)
       (Some alice) =
     (Sse 401 [Error_frame (Some ''unauthenticated'') ''UID does not match.''] True, [])
   \<and> ask cfg_plain env_ok (text_request \<lparr> body := ask_body \<lparr> b_text := JStr '' '' \<rparr> \<rparr>) None =
     (Json 400 (Error_body ''no_input'' ''No valid audio or text provided.''), [])
   \<and> snd (ask cfg_plain env_ok text_request None) \<noteq> []
   \<and> qualifying_text text_request
   \<and> \<not> well_typed_fields (body ill_typed_request)
   \<and> ask cfg_plain env_ok ill_typed_request None =
       (Json 500 (Error_body ''processing_failed'' ''Something went wrong while processing input.''),
        [])
   \<and> well_typed_fields (body text_request)"
proof -
  let ?r1 = "text_request \<lparr> body := ask_body \<lparr> b_conversationId := JStr ''  '' \<rparr> \<rparr>"
  let ?r2 = "stream_request \<lparr> body := ask_body \<lparr> b_speakLanguage := JUndefined, b_uid := JStr ''bob'' \<rparr> \<rparr>"
  let ?r3 = "stream_request \<lparr> body := ask_body \<lparr> b_uid := JStr ''bob'', b_text := JNull \<rparr> \<rparr>"
  let ?r4 = "text_request \<lparr> body := ask_body \<lparr> b_text := JStr '' '' \<rparr> \<rparr>"
  have p1: "parse_fields (body ?r1) = Inr (english [] ''alice'')" by code_simp
  have p2: "parse_fields (body ?r2) =
              Inr ((english ''c1'' ''bob'') \<lparr> f_speakLanguage := [] \<rparr>)" by code_simp
  have p3: "parse_fields (body ?r3) = Inr (english ''c1'' ''bob'')" by code_simp
  have p4: "parse_fields (body ?r4) = Inr (english ''c1'' ''alice'')" by code_simp
  have p5: "parse_fields (body text_request) = Inr (english ''c1'' ''alice'')" by code_simp
  have w: "wantsStream ?r1 = False" "wantsStream ?r2 = True" "wantsStream ?r3 = True"
    "wantsStream ?r4 = False"
    by code_simp+
  have m3: "uid_mismatch ''bob'' (Some alice)" by code_simp
  have m4: "\<not> uid_mismatch ''alice'' None" by code_simp
  have q4: "\<not> qualifying_audio ?r4" "\<not> qualifying_text ?r4" by code_simp+
  have c5: "snd (ask cfg_plain env_ok text_request None) \<noteq> []" by code_simp
  have i6: "\<not> well_typed_fields (body ill_typed_request)" by code_simp
  have t7: "well_typed_fields (body text_request)" by code_simp
  note g1 = validation_gate_order[of ?r1 cfg_plain env_ok None,
              THEN conjunct2, THEN conjunct2, THEN conjunct1, rule_format, OF p1]
  note g2 = validation_gate_order[of ?r2 cfg_plain env_ok "Some alice",
              THEN conjunct2, THEN conjunct2, THEN conjunct1, rule_format, OF p2]
  note g3 = validation_gate_order[of ?r3 cfg_plain env_ok "Some alice",
              THEN conjunct2, THEN conjunct2, THEN conjunct1, rule_format, OF p3]
  note g4 = validation_gate_order[of ?r4 cfg_plain env_ok None,
              THEN conjunct2, THEN conjunct2, THEN conjunct1, rule_format, OF p4]
  note g5 = validation_gate_order[of text_request cfg_plain env_ok None,
              THEN conjunct2, THEN conjunct2, THEN conjunct1, rule_format, OF p5]
  have 1: "ask cfg_plain env_ok ?r1 None =
     (Json 400 (Error_body ''missing_conversation'' ''No conversationId.''), [])"
    using g1[THEN conjunct1]
    by (simp add: english_def w reject_def)
  have 2: "ask cfg_plain env_ok ?r2 (Some alice) =
     (Sse 400 [Error_frame (Some ''missing_language'')
                 ''Please select both Speaking and Answer languages.''] True, [])"
    using g2[THEN conjunct2, THEN conjunct1]
    by (simp add: english_def w reject_def sseError_def)
  have 3: "ask cfg_plain env_ok ?r3 (Some alice) =
     (Sse 401 [Error_frame (Some ''unauthenticated'') ''UID does not match.''] True, [])"
    using g3[THEN conjunct2, THEN conjunct2, THEN conjunct1] m3
    by (simp add: english_def w reject_def sseError_def)
  have 4: "ask cfg_plain env_ok ?r4 None =
     (Json 400 (Error_body ''no_input'' ''No valid audio or text provided.''), [])"
    using g4[THEN conjunct2, THEN conjunct2, THEN conjunct2, THEN conjunct1] m4 q4
    by (simp add: english_def w reject_def)
  have 5: "qualifying_text text_request"
    using g5[THEN conjunct2, THEN conjunct2, THEN conjunct2, THEN conjunct2] c5
    by (simp add: qualifying_audio_def text_request_def)
  have 6: "ask cfg_plain env_ok ill_typed_request None =
       (Json 500 (Error_body ''processing_failed'' ''Something went wrong while processing input.''),
        [])"
    using validation_gate_order[of ill_typed_request cfg_plain env_ok None, THEN conjunct1] i6
    by simp
  from 1 2 3 4 c5 5 i6 6 t7 show ?thesis by (intro conjI)
qed

text \<open>
  \<^bold>\<open>C2\<close> (amended). When the middleware verified a credential, the declared uid is a string
  with something left after trimming and the two differ, the request is rejected with a
  status of at least 400 and no transcription, generation, synthesis or storage call is
  made, in both modes. The rejection is \<open>unauthenticated\<close> (401) when the identifier fields
  are strings or falsy and the conversation identifier and both languages are non-empty; it
  is \<open>missing_conversation\<close> or \<open>missing_language\<close> (400) when that earlier check fails, and
  \<open>processing_failed\<close> (500) when an identifier field is truthy and not a string.
\<close>

theorem uid_mismatch_rejected:
  assumes "verifyFirebaseToken cfg env req = (Some d, vs)"
      and "d_uid d \<noteq> []"
      and "trim_field ''uid'' (b_uid (body req)) = Inr uid"
      and "uid \<noteq> []"
      and "uid \<noteq> d_uid d"
  shows "provider_calls (snd (serve cfg env req)) = []
       \<and> 400 \<le> status (fst (serve cfg env req))
       \<and> (\<forall>f. parse_fields (body req) = Inr f \<and> f_conversationId f \<noteq> [] \<and>
               f_answerLanguage f \<noteq> [] \<and> f_speakLanguage f \<noteq> [] \<longrightarrow>
            fst (serve cfg env req) =
              reject (wantsStream req) 401 ''unauthenticated'' ''UID does not match.'')
       \<and> (\<forall>f. parse_fields (body req) = Inr f \<and> f_conversationId f = [] \<longrightarrow>
            fst (serve cfg env req) =
              reject (wantsStream req) 400 ''missing_conversation'' ''No conversationId.'')
       \<and> (\<forall>f. parse_fields (body req) = Inr f \<and> f_conversationId f \<noteq> [] \<and>
               (f_answerLanguage f = [] \<or> f_speakLanguage f = []) \<longrightarrow>
            fst (serve cfg env req) =
              reject (wantsStream req) 400 ''missing_language''
                ''Please select both Speaking and Answer languages.'')
       \<and> (\<not> well_typed_fields (body req) \<longrightarrow>
            fst (serve cfg env req) =
              Json 500 (Error_body ''processing_failed''
                          ''Something went wrong while processing input.''))"
proof -
  let ?ask = "ask cfg env req (Some d)"
  have s: "serve cfg env req = (fst ?ask, vs @ snd ?ask)"
    using assms(1) by (simp add: serve_eq)
  have v: "provider_calls vs = []"
    using verify_calls[of cfg env req] assms(1) by simp
  have mm: "uid_mismatch uid (Some d)"
    using assms by (simp add: uid_mismatch_def)
  have ga: "?ask = (reject (wantsStream req) 400 ''missing_conversation'' ''No conversationId.'', [])"
    if "parse_fields (body req) = Inr f" "f_conversationId f = []" for f
    using that by (rule gate_conversation)
  have gb: "?ask = (reject (wantsStream req) 400 ''missing_language''
                     ''Please select both Speaking and Answer languages.'', [])"
    if "parse_fields (body req) = Inr f" "f_conversationId f \<noteq> []"
       "f_answerLanguage f = [] \<or> f_speakLanguage f = []" for f
    using that by (rule gate_language)
  have gc: "?ask = (reject (wantsStream req) 401 ''unauthenticated'' ''UID does not match.'', [])"
    if "parse_fields (body req) = Inr f" "f_conversationId f \<noteq> []"
       "f_answerLanguage f \<noteq> []" "f_speakLanguage f \<noteq> []" for f
  proof -
    from parse_fields_uid[OF that(1)] assms(3) have "f_uid f = uid" by simp
    with mm have "uid_mismatch (f_uid f) (Some d)" by simp
    with that show ?thesis by (rule gate_identity)
  qed
  have ge: "?ask = (Json 500 (Error_body ''processing_failed''
                     ''Something went wrong while processing input.''), [])"
    if "\<not> well_typed_fields (body req)"
  proof -
    from that have "isl (parse_fields (body req))" by (simp add: parse_fields_typed)
    then obtain x where "parse_fields (body req) = Inl x"
      by (cases "parse_fields (body req)") auto
    then show ?thesis by (rule ill_typed_field)
  qed
  have calls: "snd ?ask = []" and st: "400 \<le> status (fst ?ask)"
  proof -
    consider (ill) "\<not> well_typed_fields (body req)"
      | (a) f where "parse_fields (body req) = Inr f" "f_conversationId f = []"
      | (b) f where "parse_fields (body req) = Inr f" "f_conversationId f \<noteq> []"
                    "f_answerLanguage f = [] \<or> f_speakLanguage f = []"
      | (c) f where "parse_fields (body req) = Inr f" "f_conversationId f \<noteq> []"
                    "f_answerLanguage f \<noteq> []" "f_speakLanguage f \<noteq> []"
      using parse_fields_typed[of "body req"] by (cases "parse_fields (body req)") auto
    then have "snd ?ask = [] \<and> 400 \<le> status (fst ?ask)"
    proof cases
      case ill
      from ge[OF ill] show ?thesis by simp
    next
      case a
      from ga[OF a] show ?thesis by (simp add: reject_observed)
    next
      case b
      from gb[OF b] show ?thesis by (simp add: reject_observed)
    next
      case c
      from gc[OF c] show ?thesis by (simp add: reject_observed)
    qed
    then show "snd ?ask = []" and "400 \<le> status (fst ?ask)" by simp_all
  qed
  show ?thesis
  proof (intro conjI allI impI)
    show "provider_calls (snd (serve cfg env req)) = []"
      using calls v by (simp add: s provider_calls_append)
    show "400 \<le> status (fst (serve cfg env req))"
      using st by (simp add: s)
  next
    fix f
    assume "parse_fields (body req) = Inr f \<and> f_conversationId f \<noteq> [] \<and>
               f_answerLanguage f \<noteq> [] \<and> f_speakLanguage f \<noteq> []"
    then have "?ask = (reject (wantsStream req) 401 ''unauthenticated'' ''UID does not match.'', [])"
      using gc by blast
    then show "fst (serve cfg env req) =
              reject (wantsStream req) 401 ''unauthenticated'' ''UID does not match.''"
      by (simp add: s)
  next
    fix f
    assume "parse_fields (body req) = Inr f \<and> f_conversationId f = []"
    then have "?ask = (reject (wantsStream req) 400 ''missing_conversation'' ''No conversationId.'', [])"
      using ga by blast
    then show "fst (serve cfg env req) =
              reject (wantsStream req) 400 ''missing_conversation'' ''No conversationId.''"
      by (simp add: s)
  next
    fix f
    assume "parse_fields (body req) = Inr f \<and> f_conversationId f \<noteq> [] \<and>
               (f_answerLanguage f = [] \<or> f_speakLanguage f = [])"
    then have "?ask = (reject (wantsStream req) 400 ''missing_language''
                     ''Please select both Speaking and Answer languages.'', [])"
      using gb by blast
    then show "fst (serve cfg env req) =
              reject (wantsStream req) 400 ''missing_language''
                ''Please select both Speaking and Answer languages.''"
      by (simp add: s)
  next
    assume "\<not> well_typed_fields (body req)"
    from ge[OF this] show "fst (serve cfg env req) =
              Json 500 (Error_body ''processing_failed''
                          ''Something went wrong while processing input.'')"
      by (simp add: s)
  qed
qed

text \<open>
  C2 states the answer 401 \<open>unauthenticated\<close> for every request with differing identities.
  The identity check is the third check: when the conversation identifier is empty as well,
  the first check answers, with 400 \<open>missing_conversation\<close>.
\<close>

theorem uid_mismatch_rejected_counterexample:
  "verifyFirebaseToken cfg_plain env_ok mismatch_without_conversation =
     (Some alice, [Verify ''tok123''])
   \<and> trim_field ''uid'' (b_uid (body mismatch_without_conversation)) = Inr ''bob''
   \<and> ''bob'' \<noteq> d_uid alice
   \<and> serve cfg_plain env_ok mismatch_without_conversation =
       (Sse 400 [Error_frame (Some ''missing_conversation'') ''No conversationId.''] True,
        [Verify ''tok123''])
   \<and> serve cfg_plain env_ok (mismatch_without_conversation \<lparr> query_stream := None \<rparr>) =
       (Json 400 (Error_body ''missing_conversation'' ''No conversationId.''),
        [Verify ''tok123''])
   \<and> status (fst (serve cfg_plain env_ok mismatch_without_conversation)) \<noteq> 401
   \<and> error_kind (fst (serve cfg_plain env_ok mismatch_without_conversation)) \<noteq>
       Some ''unauthenticated''"
  by code_simp

theorem uid_mismatch_rejected_witness:
  "verifyFirebaseToken cfg_plain env_ok mismatch_request = (Some alice, [Verify ''tok123''])
   \<and> trim_field ''uid'' (b_uid (body mismatch_request)) = Inr ''bob''
   \<and> ''bob'' \<noteq> d_uid alice
   \<and> serve cfg_plain env_ok mismatch_request =
       (Sse 401 [Error_frame (Some ''unauthenticated'') ''UID does not match.''] True,
        [Verify ''tok123''])
   \<and> provider_calls (snd (serve cfg_plain env_ok mismatch_request)) = []
   \<and> fst (serve cfg_plain env_ok (mismatch_request \<lparr> query_stream := None \<rparr>)) =
       Json 401 (Error_body ''unauthenticated'' ''UID does not match.'')
   \<and> fst (serve cfg_plain env_ok mismatch_without_conversation) =
       Sse 400 [Error_frame (Some ''missing_conversation'') ''No conversationId.''] True
   \<and> provider_calls (snd (serve cfg_plain env_ok mismatch_without_conversation)) = []"
proof -
  let ?n = "mismatch_without_conversation"
  have vn: "verifyFirebaseToken cfg_plain env_ok ?n = (Some alice, [Verify ''tok123''])"
    by code_simp
  have un: "trim_field ''uid'' (b_uid (body ?n)) = Inr ''bob''"
    by code_simp
  have pn: "parse_fields (body ?n) = Inr (english [] ''bob'')"
    by code_simp
  have wn: "wantsStream ?n = True"
    by code_simp
  let ?r = "mismatch_request"
  let ?b = "mismatch_request \<lparr> query_stream := None \<rparr>"
  have v: "verifyFirebaseToken cfg_plain env_ok ?r = (Some alice, [Verify ''tok123''])"
    by code_simp
  have v': "verifyFirebaseToken cfg_plain env_ok ?b = (Some alice, [Verify ''tok123''])"
    by code_simp
  have d: "d_uid alice \<noteq> []" "''bob'' \<noteq> d_uid alice" "''bob'' \<noteq> []"
    by code_simp+
  have u: "trim_field ''uid'' (b_uid (body ?r)) = Inr ''bob''"
    by code_simp
  have u': "trim_field ''uid'' (b_uid (body ?b)) = Inr ''bob''"
    by code_simp
  have p: "parse_fields (body ?r) = Inr (english ''c1'' ''bob'')"
    by code_simp
  have p': "parse_fields (body ?b) = Inr (english ''c1'' ''bob'')"
    by code_simp
  have w: "wantsStream ?r = True" "wantsStream ?b = False"
    by code_simp+
  note t = uid_mismatch_rejected[OF v d(1) u d(3) d(2)]
  note t' = uid_mismatch_rejected[OF v' d(1) u' d(3) d(2)]
  note tn = uid_mismatch_rejected[OF vn d(1) un d(3) d(2)]
  from tn[THEN conjunct1] have cn: "provider_calls (snd (serve cfg_plain env_ok ?n)) = []" .
  from tn[THEN conjunct2, THEN conjunct2, THEN conjunct2, THEN conjunct1, rule_format,
         of "english [] ''bob''"] pn
  have rn: "fst (serve cfg_plain env_ok ?n) =
      Sse 400 [Error_frame (Some ''missing_conversation'') ''No conversationId.''] True"
    by (simp add: english_def wn reject_def sseError_def)
  from t[THEN conjunct1] have c: "provider_calls (snd (serve cfg_plain env_ok ?r)) = []" .
  from t[THEN conjunct2, THEN conjunct2, THEN conjunct1] p have r: "fst (serve cfg_plain env_ok ?r) =
      Sse 401 [Error_frame (Some ''unauthenticated'') ''UID does not match.''] True"
    by (simp add: english_def w reject_def sseError_def)
  from t'[THEN conjunct2, THEN conjunct2, THEN conjunct1] p' have r': "fst (serve cfg_plain env_ok ?b) =
      Json 401 (Error_body ''unauthenticated'' ''UID does not match.'')"
    by (simp add: english_def w reject_def)
  have s: "snd (serve cfg_plain env_ok ?r) = [Verify ''tok123'']"
    by code_simp
  from r s have rs: "serve cfg_plain env_ok ?r =
       (Sse 401 [Error_frame (Some ''unauthenticated'') ''UID does not match.''] True,
        [Verify ''tok123''])"
    by (simp add: prod_eq_iff)
  from v u d(2) rs c r' rn cn show ?thesis by (intro conjI)
qed

subsection \<open>Input resolution\<close>

lemma small_file_resolve:
  assumes "req_file req = Some a" "file_size a < 5000"
  shows "resolve_input cfg env req sl = (text_input req, [])"
  using assms by (simp add: resolve_input_def)

lemma no_file_resolve:
  "resolve_input cfg env (req \<lparr> req_file := None \<rparr>) sl = (text_input req, [])"
  by (simp add: resolve_input_def text_input_def)

lemma prepare_without_file:
  assumes "req_file req = Some a" "file_size a < 5000"
  shows "prepare cfg env req fu = prepare cfg env (req \<lparr> req_file := None \<rparr>) fu"
  by (simp add: prepare_def small_file_resolve[OF assms] no_file_resolve
        cong: sum.case_cong option.case_cong)

lemma wantsStream_without_file: "wantsStream (req \<lparr> req_file := None \<rparr>) = wantsStream req"
  by (simp add: wantsStream_def)

lemma text_input_qualifying:
  "b_text (body req) = JStr t \<Longrightarrow> trim t \<noteq> [] \<Longrightarrow> text_input req = Inr (trim t)"
  by (auto simp: text_input_def trim_def)

lemma clean_off: "\<not> CLEAN_TRANSCRIPT cfg \<Longrightarrow> clean_transcript cfg env sl t = (Inr t, [])"
  by (simp add: clean_transcript_def)

lemma prepare_text:
  assumes "parse_fields (body req) = Inr f" "validate f fu = None"
      and "resolve_input cfg env req (f_speakLanguage f) = (Inr t, cs)"
      and "\<not> CLEAN_TRANSCRIPT cfg"
  shows "prepare cfg env req fu =
           (Inr \<lparr> c_answerLanguage = f_answerLanguage f, c_speakLanguage = f_speakLanguage f,
                  c_conversationId = f_conversationId f, c_uid = f_uid f, c_userText = t,
                  c_messages = compose_messages (f_answerLanguage f)
                                 (parse_history env (b_history (body req))) t \<rparr>, cs)"
  using assms by (simp add: prepare_def clean_off)

text \<open>
  \<^bold>\<open>C8.\<close> An uploaded file of fewer than 5000 bytes is treated as absent: the handler answers
  exactly as it answers the same request without the file, and the audio branch is not taken.
  Input resolution then depends on the text field alone: a text that is a string with
  something left after trimming is the resolved input (trimmed), without a transcription
  call; otherwise the resolution fails with \<open>no_input\<close>. On the handler, once the checks
  (a) to (c) have passed: with the cleanup toggle off the trimmed text is the user text of
  the prepared context, and a text that does not qualify is answered \<open>no_input\<close> (400)
  in the format of the mode, without any provider call.
\<close>

theorem undersized_audio_is_absent:
  assumes "req_file req = Some a"
      and "file_size a < 5000"
  shows "ask cfg env req firebaseUser = ask cfg env (req \<lparr> req_file := None \<rparr>) firebaseUser
       \<and> \<not> qualifying_audio req
       \<and> (\<forall>speakLanguage t. b_text (body req) = JStr t \<and> trim t \<noteq> [] \<longrightarrow>
             resolve_input cfg env req speakLanguage = (Inr (trim t), []))
       \<and> (\<forall>speakLanguage. \<not> qualifying_text req \<longrightarrow>
             resolve_input cfg env req speakLanguage =
               (Inl (Invalid 400 ''no_input'' ''No valid audio or text provided.''), []))
       \<and> (\<forall>f t. parse_fields (body req) = Inr f \<and> validate f firebaseUser = None \<and>
               b_text (body req) = JStr t \<and> trim t \<noteq> [] \<and> \<not> CLEAN_TRANSCRIPT cfg \<longrightarrow>
             (\<exists>c. prepare cfg env req firebaseUser = (Inr c, []) \<and> c_userText c = trim t))
       \<and> (\<forall>f. parse_fields (body req) = Inr f \<and> validate f firebaseUser = None \<and>
               \<not> qualifying_text req \<longrightarrow>
             ask cfg env req firebaseUser =
               (reject (wantsStream req) 400 ''no_input'' ''No valid audio or text provided.'', []))"
proof -
  have 1: "ask cfg env req firebaseUser = ask cfg env (req \<lparr> req_file := None \<rparr>) firebaseUser"
    by (simp add: ask_def prepare_without_file[OF assms] wantsStream_without_file
          cong: sum.case_cong prod.case_cong abort.case_cong)
  have 2: "\<not> qualifying_audio req"
    using assms by (simp add: qualifying_audio_def)
  have r: "resolve_input cfg env req sl = (text_input req, [])" for sl
    by (rule small_file_resolve[OF assms])
  have 3: "resolve_input cfg env req sl = (Inr (trim t), [])"
    if "b_text (body req) = JStr t" "trim t \<noteq> []" for sl t
    unfolding r using text_input_qualifying[OF that] by simp
  have 4: "\<exists>c. prepare cfg env req firebaseUser = (Inr c, []) \<and> c_userText c = trim t"
    if "parse_fields (body req) = Inr f" "validate f firebaseUser = None"
       "b_text (body req) = JStr t" "trim t \<noteq> []" "\<not> CLEAN_TRANSCRIPT cfg" for f t
  proof -
    have "resolve_input cfg env req (f_speakLanguage f) = (Inr (trim t), [])"
      by (rule 3[OF that(3,4)])
    from prepare_text[OF that(1,2) this that(5)] show ?thesis by simp
  qed
  have 5: "ask cfg env req firebaseUser =
               (reject (wantsStream req) 400 ''no_input'' ''No valid audio or text provided.'', [])"
    if "parse_fields (body req) = Inr f" "validate f firebaseUser = None" "\<not> qualifying_text req" for f
    by (rule gate_input[OF that(1,2) 2 that(3)])
  show ?thesis
    apply (intro conjI allI impI)
    subgoal by (rule 1)
    subgoal by (rule 2)
    subgoal using 3 by blast
    subgoal using resolve_no_input[OF 2] by blast
    subgoal using 4 by blast
    subgoal using 5 by blast
    done
qed

theorem undersized_audio_is_absent_witness:
  "req_file small_audio_request = Some \<lparr> file_buffer = [0x1A, 0x45, 0xDF, 0xA3], file_size = 4 \<rparr>
   \<and> ask cfg_plain env_ok small_audio_request None = ask cfg_plain env_ok text_request None
   \<and> resolve_input cfg_plain env_ok small_audio_request ''English'' = (Inr ''What is 2+2?'', [])
   \<and> ask cfg_plain env_ok
         (small_audio_request \<lparr> body := ask_body \<lparr> b_text := JUndefined \<rparr> \<rparr>) None =
       (Json 400 (Error_body ''no_input'' ''No valid audio or text provided.''), [])"
proof -
  let ?a = "\<lparr> file_buffer = [0x1A, 0x45, 0xDF, 0xA3], file_size = 4 \<rparr>"
  let ?n = "small_audio_request \<lparr> body := ask_body \<lparr> b_text := JUndefined \<rparr> \<rparr>"
  have f: "req_file small_audio_request = Some ?a" "req_file ?n = Some ?a"
    by (simp_all add: small_audio_request_def)
  have s: "file_size ?a < 5000" by simp
  have e: "small_audio_request \<lparr> req_file := None \<rparr> = text_request"
    by (simp add: small_audio_request_def text_request_def)
  have t: "b_text (body small_audio_request) = JStr ''What is 2+2?''"
    by (simp add: small_audio_request_def text_request_def ask_body_def)
  have tt: "trim ''What is 2+2?'' = ''What is 2+2?''" by code_simp
  have p: "parse_fields (body ?n) = Inr (english ''c1'' ''alice'')" by code_simp
  have v: "validate (english ''c1'' ''alice'') None = None" by code_simp
  have q: "\<not> qualifying_text ?n" by code_simp
  have w: "wantsStream ?n = False" by code_simp
  note u = undersized_audio_is_absent[OF f(1) s, of cfg_plain env_ok None]
  note u' = undersized_audio_is_absent[OF f(2) s, of cfg_plain env_ok None]
  from u[THEN conjunct1]
  have 1: "ask cfg_plain env_ok small_audio_request None = ask cfg_plain env_ok text_request None"
    by (simp add: e)
  from u[THEN conjunct2, THEN conjunct2, THEN conjunct1] t tt have 2:
    "resolve_input cfg_plain env_ok small_audio_request ''English'' = (Inr ''What is 2+2?'', [])"
    by simp
  from u'[THEN conjunct2, THEN conjunct2, THEN conjunct2, THEN conjunct2, THEN conjunct2] p v q
  have 3: "ask cfg_plain env_ok ?n None =
       (Json 400 (Error_body ''no_input'' ''No valid audio or text provided.''), [])"
    by (simp add: w reject_def)
  from f(1) 1 2 3 show ?thesis by (intro conjI)
qed

text \<open>
  \<^bold>\<open>C10.\<close> When the checks (a) to (c) pass, the uploaded file has at least 5000 bytes and the
  transcription comes back empty or as white space only, the request does not fail with
  \<open>no_input\<close>: the resolved user text is the empty string, the last message of the context
  is the user turn with empty content, and the generation provider is called with that
  context. The text field plays no part, whatever it holds.
\<close>

theorem empty_transcription_accepted:
  assumes "parse_fields (body req) = Inr f"
      and "validate f firebaseUser = None"
      and "req_file req = Some a"
      and "5000 \<le> file_size a"
      and "transcribe env (transcription_request cfg a (f_speakLanguage f)) = Inr stt_text"
      and "trim (or_str stt_text []) = []"
  shows "error_kind (fst (ask cfg env req firebaseUser)) \<noteq> Some ''no_input''
       \<and> (\<exists>c. prepare cfg env req firebaseUser =
                  (Inr c, [Transcribe (transcription_request cfg a (f_speakLanguage f))])
              \<and> c_userText c = []
              \<and> last (c_messages c) = chat_message ''user'' []
              \<and> generation_call (wantsStream req) (c_messages c)
                    \<in> set (snd (ask cfg env req firebaseUser)))"
proof -
  let ?c = "\<lparr> c_answerLanguage = f_answerLanguage f, c_speakLanguage = f_speakLanguage f,
              c_conversationId = f_conversationId f, c_uid = f_uid f, c_userText = [],
              c_messages = compose_messages (f_answerLanguage f)
                             (parse_history env (b_history (body req))) [] \<rparr>"
  let ?cs = "[Transcribe (transcription_request cfg a (f_speakLanguage f))]"
  have r: "resolve_input cfg env req (f_speakLanguage f) = (Inr [], ?cs)"
    using assms(3-6) by (simp add: resolve_input_def Let_def)
  have c: "clean_transcript cfg env (f_speakLanguage f) [] = (Inr [], [])"
    by (simp add: clean_transcript_def)
  have p: "prepare cfg env req firebaseUser = (Inr ?c, ?cs)"
    using assms(1,2) r c by (simp add: prepare_def)
  have l: "last (c_messages ?c) = chat_message ''user'' []"
    by (simp add: compose_messages_def Let_def)
  have g: "generation_call (wantsStream req) (c_messages ?c) \<in> set (snd (ask cfg env req firebaseUser))"
    using streaming_first_call[of cfg env ?c] buffered_first_call[of cfg env ?c]
    by (auto simp: ask_prepared[OF p] generation_call_def)
  have k: "error_kind (fst (ask cfg env req firebaseUser)) \<noteq> Some ''no_input''"
  proof (cases "wantsStream req")
    case True
    then show ?thesis
      by (auto simp: ask_prepared[OF p] streaming_def stream_error_frame_def
            split: sum.splits prod.splits option.splits)
  next
    case False
    then show ?thesis
      by (auto simp: ask_prepared[OF p] buffered_def outer_catch_def Let_def
            split: sum.splits prod.splits option.splits)
  qed
  from p l g have "prepare cfg env req firebaseUser = (Inr ?c, ?cs) \<and> c_userText ?c = []
      \<and> last (c_messages ?c) = chat_message ''user'' []
      \<and> generation_call (wantsStream req) (c_messages ?c) \<in> set (snd (ask cfg env req firebaseUser))"
    by simp
  then have "\<exists>c. prepare cfg env req firebaseUser = (Inr c, ?cs) \<and> c_userText c = []
      \<and> last (c_messages c) = chat_message ''user'' []
      \<and> generation_call (wantsStream req) (c_messages c) \<in> set (snd (ask cfg env req firebaseUser))"
    by (rule exI)
  with k show ?thesis by simp
qed

theorem empty_transcription_accepted_witness:
  "req_file audio_request = Some silent_audio
   \<and> 5000 \<le> file_size silent_audio
   \<and> qualifying_text audio_request
   \<and> transcribe env_silence (transcription_request cfg_plain silent_audio ''English'') =
       Inr (Some ''  '')
   \<and> error_kind (fst (ask cfg_plain env_silence audio_request None)) \<noteq> Some ''no_input''
   \<and> (\<exists>c. prepare cfg_plain env_silence audio_request None =
              (Inr c, [Transcribe (transcription_request cfg_plain silent_audio ''English'')])
          \<and> c_userText c = []
          \<and> last (c_messages c) = chat_message ''user'' []
          \<and> Responses (c_messages c) \<in> set (snd (ask cfg_plain env_silence audio_request None)))"
proof -
  have p: "parse_fields (body audio_request) = Inr (english ''c1'' ''alice'')"
    by (simp add: audio_request_def text_request_def ask_body_def parse_fields_def english_def)
       code_simp
  have v: "validate (english ''c1'' ''alice'') None = None" by code_simp
  have f: "req_file audio_request = Some silent_audio" by (simp add: audio_request_def)
  have s: "5000 \<le> file_size silent_audio" by (simp add: silent_audio_def)
  have q: "qualifying_text audio_request"
    by (simp add: audio_request_def text_request_def ask_body_def qualifying_text_def) code_simp
  have sl: "f_speakLanguage (english ''c1'' ''alice'') = ''English''" by (simp add: english_def)
  have t: "transcribe env_silence (transcription_request cfg_plain silent_audio ''English'') =
             Inr (Some ''  '')"
    by (simp add: env_silence_def)
  have e: "trim (or_str (Some ''  '') []) = []" by code_simp
  have w: "wantsStream audio_request = False"
    by (simp add: audio_request_def text_request_def wantsStream_def or_str_def) code_simp
  note th = empty_transcription_accepted[OF p v f s t[folded sl] e, unfolded sl w generation_call_def if_False]
  from f s q t th show ?thesis by (intro conjI) simp_all
qed

subsection \<open>Streaming mode\<close>

lemma stream_loop_tokens:
  "stream_loop chunks [] [] =
     (concat (tokens chunks), map Delta (filter (\<lambda>t. t \<noteq> []) (tokens chunks)))"
  by (simp add: stream_loop_eq tokens_def)

lemma streaming_completed:
  assumes "chat_stream env (c_messages c) = Inr (chunks, None)"
  shows "streaming cfg env c =
           (Sse 200
              (map Delta (filter (\<lambda>t. t \<noteq> []) (tokens chunks)) @ [Message_end] @
               tts_frames env (concat (tokens chunks)) @
               (if fst (persist cfg env c (concat (tokens chunks))) then []
                else [Warn ''history_write_failed'']) @
               [Done (c_userText c) (concat (tokens chunks))])
              True,
            [Chat_stream (c_messages c), Speech (concat (tokens chunks))] @
            snd (persist cfg env c (concat (tokens chunks))))"
  using assms by (simp add: streaming_def stream_loop_tokens split: prod.splits)

lemma tts_frames_shape:
  "length (tts_frames env t) \<le> 1 \<and> list_all is_synthesis_frame (tts_frames env t)"
  by (simp add: tts_frames_def split: sum.splits)

text \<open>
  \<^bold>\<open>C1\<close> (amended). In streaming mode, when the request reaches the generation step and the
  stream completes after producing the tokens T1..Tn, the response has status 200 and its
  frames are, in this order: one delta frame for every non-empty token, whose payloads
  concatenate to T1..Tn; exactly one end-of-message frame; at most one frame for the outcome
  of the synthesis (the audio, or a \<open>tts_error\<close> warning); a \<open>history_write_failed\<close> warning
  exactly when the history was written and a write failed; exactly one done frame with the
  transcript and the concatenation of T1..Tn. The channel is closed after it.
\<close>

theorem stream_frame_sequence:
  assumes "prepare cfg env req firebaseUser = (Inr c, cs)"
      and "wantsStream req"
      and "chat_stream env (c_messages c) = Inr (chunks, None)"
  shows "fst (ask cfg env req firebaseUser) =
           Sse 200
             (map Delta (filter (\<lambda>t. t \<noteq> []) (tokens chunks)) @ [Message_end] @
              tts_frames env (concat (tokens chunks)) @
              (if fst (persist cfg env c (concat (tokens chunks))) then []
               else [Warn ''history_write_failed'']) @
              [Done (c_userText c) (concat (tokens chunks))])
             True
       \<and> concat (filter (\<lambda>t. t \<noteq> []) (tokens chunks)) = concat (tokens chunks)
       \<and> length (tts_frames env (concat (tokens chunks))) \<le> 1
       \<and> list_all is_synthesis_frame (tts_frames env (concat (tokens chunks)))"
  using assms(2) tts_frames_shape[of env "concat (tokens chunks)"]
  by (simp add: ask_prepared[OF assms(1)] streaming_completed[OF assms(3)] concat_nonempty)

text \<open>
  The sequence C1 states leaves no room for a warning frame. When a history write fails, the
  frame \<open>history_write_failed\<close> stands between the audio frame and the done frame.
\<close>

theorem stream_frame_sequence_counterexample:
  "tokens [Some ''Fo'', None, Some ''ur!''] = [''Fo'', [], ''ur!'']
   \<and> chat_stream env_store_fails (c_messages ask_ctx) = Inr ([Some ''Fo'', None, Some ''ur!''], None)
   \<and> serve cfg_plain env_store_fails stream_request =
       (Sse 200
          [Delta ''Fo'', Delta ''ur!'', Message_end, Tts ''QUJD'', Warn ''history_write_failed'',
           Done ''What is 2+2?'' ''Four!'']
          True,
        [Chat_stream (c_messages ask_ctx), Speech ''Four!'', Fs_set ''alice'' ''c1'',
         Fs_add ''alice'' ''c1'' (user_turn ask_ctx)])
   \<and> \<not> claimed_stream_shape [''Fo'', [], ''ur!''] (fst (serve cfg_plain env_store_fails stream_request))"
  by code_simp

theorem stream_frame_sequence_witness:
  "prepare cfg_plain env_store_fails stream_request None = (Inr ask_ctx, [])
   \<and> wantsStream stream_request
   \<and> chat_stream env_store_fails (c_messages ask_ctx) = Inr ([Some ''Fo'', None, Some ''ur!''], None)
   \<and> fst (ask cfg_plain env_store_fails stream_request None) =
       Sse 200
         [Delta ''Fo'', Delta ''ur!'', Message_end, Tts ''QUJD'', Warn ''history_write_failed'',
          Done ''What is 2+2?'' ''Four!'']
         True
   \<and> fst (ask cfg_plain env_ok stream_request None) =
       Sse 200 [Delta ''Fo'', Delta ''ur!'', Message_end, Tts ''QUJD'', Done ''What is 2+2?'' ''Four!'']
         True
   \<and> claimed_stream_shape [''Fo'', [], ''ur!''] (fst (ask cfg_plain env_ok stream_request None))"
proof -
  have p: "prepare cfg_plain env_store_fails stream_request None = (Inr ask_ctx, [])"
    by code_simp
  have p': "prepare cfg_plain env_ok stream_request None = (Inr ask_ctx, [])"
    by code_simp
  have w: "wantsStream stream_request" by code_simp
  have s: "chat_stream env_store_fails (c_messages ask_ctx) = Inr ([Some ''Fo'', None, Some ''ur!''], None)"
    by (simp add: env_store_fails_def env_ok_def)
  have s': "chat_stream env_ok (c_messages ask_ctx) = Inr ([Some ''Fo'', None, Some ''ur!''], None)"
    by (simp add: env_ok_def)
  have e: "Sse 200
             (map Delta (filter (\<lambda>t. t \<noteq> []) (tokens [Some ''Fo'', None, Some ''ur!''])) @
              [Message_end] @
              tts_frames env_store_fails (concat (tokens [Some ''Fo'', None, Some ''ur!''])) @
              (if fst (persist cfg_plain env_store_fails ask_ctx
                         (concat (tokens [Some ''Fo'', None, Some ''ur!''])))
               then [] else [Warn ''history_write_failed'']) @
              [Done (c_userText ask_ctx) (concat (tokens [Some ''Fo'', None, Some ''ur!'']))])
             True =
           Sse 200
             [Delta ''Fo'', Delta ''ur!'', Message_end, Tts ''QUJD'', Warn ''history_write_failed'',
              Done ''What is 2+2?'' ''Four!'']
             True"
    by code_simp
  have e': "Sse 200
             (map Delta (filter (\<lambda>t. t \<noteq> []) (tokens [Some ''Fo'', None, Some ''ur!''])) @
              [Message_end] @
              tts_frames env_ok (concat (tokens [Some ''Fo'', None, Some ''ur!''])) @
              (if fst (persist cfg_plain env_ok ask_ctx
                         (concat (tokens [Some ''Fo'', None, Some ''ur!''])))
               then [] else [Warn ''history_write_failed'']) @
              [Done (c_userText ask_ctx) (concat (tokens [Some ''Fo'', None, Some ''ur!'']))])
             True =
           Sse 200 [Delta ''Fo'', Delta ''ur!'', Message_end, Tts ''QUJD'', Done ''What is 2+2?'' ''Four!'']
             True"
    by code_simp
  from stream_frame_sequence[OF p w s, THEN conjunct1]
  have 1: "fst (ask cfg_plain env_store_fails stream_request None) =
       Sse 200
         [Delta ''Fo'', Delta ''ur!'', Message_end, Tts ''QUJD'', Warn ''history_write_failed'',
          Done ''What is 2+2?'' ''Four!'']
         True"
    unfolding e .
  from stream_frame_sequence[OF p' w s', THEN conjunct1]
  have 2: "fst (ask cfg_plain env_ok stream_request None) =
       Sse 200 [Delta ''Fo'', Delta ''ur!'', Message_end, Tts ''QUJD'', Done ''What is 2+2?'' ''Four!'']
         True"
    unfolding e' .
  have 3: "claimed_stream_shape [''Fo'', [], ''ur!'']
             (Sse 200 [Delta ''Fo'', Delta ''ur!'', Message_end, Tts ''QUJD'', Done ''What is 2+2?'' ''Four!'']
                True)"
    by code_simp
  from p w s 1 2 3 show ?thesis by (intro conjI) simp_all
qed

subsection \<open>Synthesis failure\<close>

text \<open>
  \<^bold>\<open>C5.\<close> When the request reaches the generation step, the generation succeeds and the
  synthesis throws, buffered mode answers 200 with the assistant text and an empty
  \<open>audioBase64\<close>; streaming mode sends a \<open>tts_error\<close> warning frame after the
  end-of-message frame, still ends with the done frame on a closed channel, and keeps
  status 200.
\<close>

theorem synthesis_failure_is_not_fatal:
  assumes "prepare cfg env req firebaseUser = (Inr c, cs)"
  shows "(\<forall>out e. \<not> wantsStream req \<and> responses_create env (c_messages c) = Inr out \<and>
                 speech env (trim (or_str out [])) = Inl e \<longrightarrow>
            fst (ask cfg env req firebaseUser) =
              Json 200 (Answer_body (c_conversationId c) (c_userText c) (trim (or_str out [])) []))
       \<and> (\<forall>chunks e. wantsStream req \<and> chat_stream env (c_messages c) = Inr (chunks, None) \<and>
                 speech env (concat (tokens chunks)) = Inl e \<longrightarrow>
            fst (ask cfg env req firebaseUser) =
              Sse 200
                (map Delta (filter (\<lambda>t. t \<noteq> []) (tokens chunks)) @
                 [Message_end, Tts_error (or_str (err_message e) (err_name e))] @
                 (if fst (persist cfg env c (concat (tokens chunks))) then []
                  else [Warn ''history_write_failed'']) @
                 [Done (c_userText c) (concat (tokens chunks))])
                True)"
proof (intro conjI allI impI)
  fix out e
  assume "\<not> wantsStream req \<and> responses_create env (c_messages c) = Inr out \<and>
          speech env (trim (or_str out [])) = Inl e"
  then show "fst (ask cfg env req firebaseUser) =
     Json 200 (Answer_body (c_conversationId c) (c_userText c) (trim (or_str out [])) [])"
    by (simp add: ask_prepared[OF assms] buffered_def Let_def)
next
  fix chunks e
  assume a: "wantsStream req \<and> chat_stream env (c_messages c) = Inr (chunks, None) \<and>
          speech env (concat (tokens chunks)) = Inl e"
  then have s: "chat_stream env (c_messages c) = Inr (chunks, None)" by simp
  from a show "fst (ask cfg env req firebaseUser) =
              Sse 200
                (map Delta (filter (\<lambda>t. t \<noteq> []) (tokens chunks)) @
                 [Message_end, Tts_error (or_str (err_message e) (err_name e))] @
                 (if fst (persist cfg env c (concat (tokens chunks))) then []
                  else [Warn ''history_write_failed'']) @
                 [Done (c_userText c) (concat (tokens chunks))])
                True"
    by (simp add: ask_prepared[OF assms] streaming_completed[OF s] tts_frames_def)
qed

theorem synthesis_failure_is_not_fatal_witness:
  "prepare cfg_plain env_tts_fails text_request None = (Inr ask_ctx, [])
   \<and> responses_create env_tts_fails (c_messages ask_ctx) = Inr (Some ''Four!'')
   \<and> speech env_tts_fails ''Four!'' = Inl boom
   \<and> fst (ask cfg_plain env_tts_fails text_request None) =
       Json 200 (Answer_body ''c1'' ''What is 2+2?'' ''Four!'' [])
   \<and> fst (ask cfg_plain env_tts_fails stream_request None) =
       Sse 200 [Delta ''Fo'', Delta ''ur!'', Message_end, Tts_error ''boom'',
                Done ''What is 2+2?'' ''Four!''] True"
proof -
  have p: "prepare cfg_plain env_tts_fails text_request None = (Inr ask_ctx, [])"
    by code_simp
  have p': "prepare cfg_plain env_tts_fails stream_request None = (Inr ask_ctx, [])"
    by code_simp
  have w: "\<not> wantsStream text_request" "wantsStream stream_request" by code_simp+
  have g: "responses_create env_tts_fails (c_messages ask_ctx) = Inr (Some ''Four!'')"
    by (simp add: env_tts_fails_def env_ok_def)
  have g': "chat_stream env_tts_fails (c_messages ask_ctx) = Inr ([Some ''Fo'', None, Some ''ur!''], None)"
    by (simp add: env_tts_fails_def env_ok_def)
  have t: "speech env_tts_fails t = Inl boom" for t
    by (simp add: env_tts_fails_def)
  have a: "trim (or_str (Some ''Four!'') []) = ''Four!''" by code_simp
  have c: "c_conversationId ask_ctx = ''c1''" "c_userText ask_ctx = ''What is 2+2?''"
    by (simp_all add: ask_ctx_def)
  have e: "map Delta (filter (\<lambda>t. t \<noteq> []) (tokens [Some ''Fo'', None, Some ''ur!''])) @
            [Message_end, Tts_error (or_str (err_message boom) (err_name boom))] @
            (if fst (persist cfg_plain env_tts_fails ask_ctx
                       (concat (tokens [Some ''Fo'', None, Some ''ur!''])))
             then [] else [Warn ''history_write_failed'']) @
            [Done (c_userText ask_ctx) (concat (tokens [Some ''Fo'', None, Some ''ur!'']))] =
           [Delta ''Fo'', Delta ''ur!'', Message_end, Tts_error ''boom'', Done ''What is 2+2?'' ''Four!'']"
    by code_simp
  from synthesis_failure_is_not_fatal[OF p, THEN conjunct1, rule_format, of "Some ''Four!''" boom]
    w g t
  have 1: "fst (ask cfg_plain env_tts_fails text_request None) =
       Json 200 (Answer_body ''c1'' ''What is 2+2?'' ''Four!'' [])"
    by (simp add: a c)
  from synthesis_failure_is_not_fatal[OF p', THEN conjunct2, rule_format,
         of "[Some ''Fo'', None, Some ''ur!'']" boom] w g' t
  have 2: "fst (ask cfg_plain env_tts_fails stream_request None) =
       Sse 200 [Delta ''Fo'', Delta ''ur!'', Message_end, Tts_error ''boom'',
                Done ''What is 2+2?'' ''Four!''] True"
    unfolding e by simp
  from p g t[of "''Four!''"] 1 2 show ?thesis by (intro conjI)
qed

subsection \<open>Transcript cleanup\<close>

lemma text_input_trimmed: "text_input req = Inr t \<Longrightarrow> trim t = t"
  by (auto simp: text_input_def trim_trim split: jsval.splits if_splits)

lemma resolve_input_trimmed:
  "resolve_input cfg env req sl = (Inr t, cs) \<Longrightarrow> trim t = t"
  by (auto simp: resolve_input_def Let_def trim_trim text_input_trimmed
        split: option.splits if_splits sum.splits)

lemma or_str_empty: "or_str out [] = [] \<Longrightarrow> or_str out t = t"
  by (auto simp: or_str_def split: option.splits if_splits)

lemma prepare_cleaned:
  assumes "parse_fields (body req) = Inr f" "validate f fu = None"
      and "resolve_input cfg env req (f_speakLanguage f) = (Inr t, cs)"
      and "clean_transcript cfg env (f_speakLanguage f) t = (Inr userText, cs')"
  shows "prepare cfg env req fu =
           (Inr \<lparr> c_answerLanguage = f_answerLanguage f, c_speakLanguage = f_speakLanguage f,
                  c_conversationId = f_conversationId f, c_uid = f_uid f, c_userText = userText,
                  c_messages = compose_messages (f_answerLanguage f)
                                 (parse_history env (b_history (body req))) userText \<rparr>, cs @ cs')"
  using assms by (simp add: prepare_def)

lemma prepare_cleanup_thrown:
  assumes "parse_fields (body req) = Inr f" "validate f fu = None"
      and "resolve_input cfg env req (f_speakLanguage f) = (Inr t, cs)"
      and "clean_transcript cfg env (f_speakLanguage f) t = (Inl e, cs')"
  shows "prepare cfg env req fu = (Inl (Thrown e), cs @ cs')"
  using assms by (simp add: prepare_def)

text \<open>
  \<^bold>\<open>C6\<close> (amended). With the cleanup toggle on and a non-empty resolved input text, the
  cleanup pass is called once with that text. When it returns nothing or the empty string,
  the original text is the user text of the context; when it returns a text with more than
  white space, the trimmed result replaces it and the user text stays non-empty; when the
  pass throws, the request fails through the outer catch and the generation provider is
  never called.
\<close>

theorem cleanup_pass:
  assumes "parse_fields (body req) = Inr f"
      and "validate f firebaseUser = None"
      and "resolve_input cfg env req (f_speakLanguage f) = (Inr t, cs)"
      and "CLEAN_TRANSCRIPT cfg"
      and "t \<noteq> []"
  shows "(\<forall>out. responses_create env (cleanup_input (f_speakLanguage f) t) = Inr out \<and>
              or_str out [] = [] \<longrightarrow>
            (\<exists>c. prepare cfg env req firebaseUser =
                    (Inr c, cs @ [Responses (cleanup_input (f_speakLanguage f) t)]) \<and>
                  c_userText c = t))
       \<and> (\<forall>s. responses_create env (cleanup_input (f_speakLanguage f) t) = Inr (Some s) \<and>
              trim s \<noteq> [] \<longrightarrow>
            (\<exists>c. prepare cfg env req firebaseUser =
                    (Inr c, cs @ [Responses (cleanup_input (f_speakLanguage f) t)]) \<and>
                  c_userText c = trim s \<and> c_userText c \<noteq> []))
       \<and> (\<forall>e. responses_create env (cleanup_input (f_speakLanguage f) t) = Inl e \<longrightarrow>
            ask cfg env req firebaseUser =
              (outer_catch e, cs @ [Responses (cleanup_input (f_speakLanguage f) t)]))"
proof (intro conjI allI impI)
  let ?call = "[Responses (cleanup_input (f_speakLanguage f) t)]"
  fix out
  assume a: "responses_create env (cleanup_input (f_speakLanguage f) t) = Inr out \<and> or_str out [] = []"
  have "clean_transcript cfg env (f_speakLanguage f) t = (Inr t, ?call)"
    using a assms(4,5) resolve_input_trimmed[OF assms(3)]
    by (simp add: clean_transcript_def or_str_empty)
  from prepare_cleaned[OF assms(1-3) this]
  show "\<exists>c. prepare cfg env req firebaseUser = (Inr c, cs @ ?call) \<and> c_userText c = t"
    by simp
next
  let ?call = "[Responses (cleanup_input (f_speakLanguage f) t)]"
  fix s
  assume a: "responses_create env (cleanup_input (f_speakLanguage f) t) = Inr (Some s) \<and> trim s \<noteq> []"
  then have "s \<noteq> []" by (auto simp: trim_def)
  then have "clean_transcript cfg env (f_speakLanguage f) t = (Inr (trim s), ?call)"
    using a assms(4,5) by (simp add: clean_transcript_def or_str_def)
  from prepare_cleaned[OF assms(1-3) this] a
  show "\<exists>c. prepare cfg env req firebaseUser = (Inr c, cs @ ?call) \<and>
            c_userText c = trim s \<and> c_userText c \<noteq> []"
    by simp
next
  let ?call = "[Responses (cleanup_input (f_speakLanguage f) t)]"
  fix e
  assume a: "responses_create env (cleanup_input (f_speakLanguage f) t) = Inl e"
  have "clean_transcript cfg env (f_speakLanguage f) t = (Inl e, ?call)"
    using a assms(4,5) by (simp add: clean_transcript_def)
  from prepare_cleanup_thrown[OF assms(1-3) this]
  show "ask cfg env req firebaseUser = (outer_catch e, cs @ ?call)"
    by (rule ask_thrown)
qed

text \<open>
  A result of white space only is truthy, so it is taken and trimmed: the user text is
  empty then.
\<close>

lemma cleanup_white_space_result:
  assumes "CLEAN_TRANSCRIPT cfg" "t \<noteq> []"
      and "responses_create env (cleanup_input sl t) = Inr (Some s)"
      and "s \<noteq> []" "trim s = []"
  shows "fst (clean_transcript cfg env sl t) = Inr []"
  using assms by (simp add: clean_transcript_def or_str_def)

text \<open>
  C6 states that the original text is preserved when the pass fails. The call is not
  guarded: its error reaches the outer catch in either mode.
\<close>

theorem cleanup_pass_counterexample:
  "CLEAN_TRANSCRIPT cfg_clean
   \<and> resolve_input cfg_clean env_cleanup_fails text_request ''English'' = (Inr ''What is 2+2?'', [])
   \<and> responses_create env_cleanup_fails (cleanup_input ''English'' ''What is 2+2?'') = Inl boom
   \<and> serve cfg_clean env_cleanup_fails text_request =
       (Json 500 (Error_body ''processing_failed'' ''Something went wrong while processing input.''),
        [Responses (cleanup_input ''English'' ''What is 2+2?'')])
   \<and> serve cfg_clean env_cleanup_fails stream_request =
       (Json 500 (Error_body ''processing_failed'' ''Something went wrong while processing input.''),
        [Responses (cleanup_input ''English'' ''What is 2+2?'')])"
  by code_simp

theorem cleanup_pass_witness:
  "resolve_input cfg_clean env_cleanup_empty text_request ''English'' = (Inr ''What is 2+2?'', [])
   \<and> CLEAN_TRANSCRIPT cfg_clean
   \<and> responses_create env_cleanup_empty (cleanup_input ''English'' ''What is 2+2?'') = Inr (Some [])
   \<and> (\<exists>c. prepare cfg_clean env_cleanup_empty text_request None =
              (Inr c, [Responses (cleanup_input ''English'' ''What is 2+2?'')]) \<and>
            c_userText c = ''What is 2+2?'')
   \<and> (\<exists>c. prepare cfg_clean env_cleanup_fixes text_request None =
              (Inr c, [Responses (cleanup_input ''English'' ''What is 2+2?'')]) \<and>
            c_userText c = ''What is 2 + 2?'')
   \<and> ask cfg_clean env_cleanup_fails text_request None =
       (Json 500 (Error_body ''processing_failed'' ''Something went wrong while processing input.''),
        [Responses (cleanup_input ''English'' ''What is 2+2?'')])"
proof -
  let ?f = "english ''c1'' ''alice''"
  let ?t = "''What is 2+2?''"
  have p: "parse_fields (body text_request) = Inr ?f" by code_simp
  have v: "validate ?f None = None" by code_simp
  have sl: "f_speakLanguage ?f = ''English''" by (simp add: english_def)
  have r: "resolve_input cfg_clean env text_request (f_speakLanguage ?f) = (Inr ?t, [])" for env
    by (simp add: resolve_input_def text_request_def text_input_def ask_body_def) code_simp
  have c: "CLEAN_TRANSCRIPT cfg_clean" by code_simp
  have n: "?t \<noteq> []" by simp
  have o1: "responses_create env_cleanup_empty (cleanup_input ''English'' ?t) = Inr (Some [])"
    by (simp add: env_cleanup_empty_def)
  have o2: "responses_create env_cleanup_fixes (cleanup_input ''English'' ?t) =
              Inr (Some '' What is 2 + 2? '')"
    by (simp add: env_cleanup_fixes_def)
  have o3: "responses_create env_cleanup_fails (cleanup_input ''English'' ?t) = Inl boom"
    by (simp add: env_cleanup_fails_def)
  have e1: "or_str (Some []) [] = []" by code_simp
  have e2: "trim '' What is 2 + 2? '' = ''What is 2 + 2?''" by code_simp
  have e3: "outer_catch boom =
      Json 500 (Error_body ''processing_failed'' ''Something went wrong while processing input.'')"
    by code_simp
  from cleanup_pass[OF p v r c n, of env_cleanup_empty, THEN conjunct1, rule_format, of "Some []"]
    o1 e1
  have 1: "\<exists>c. prepare cfg_clean env_cleanup_empty text_request None =
              (Inr c, [Responses (cleanup_input ''English'' ?t)]) \<and> c_userText c = ?t"
    by (simp add: sl)
  from cleanup_pass[OF p v r c n, of env_cleanup_fixes, THEN conjunct2, THEN conjunct1, rule_format,
         of "'' What is 2 + 2? ''"] o2 e2
  have 2: "\<exists>c. prepare cfg_clean env_cleanup_fixes text_request None =
              (Inr c, [Responses (cleanup_input ''English'' ?t)]) \<and>
            c_userText c = ''What is 2 + 2?''"
    by (simp add: sl) (elim exE conjE, intro exI conjI, assumption+)
  from cleanup_pass[OF p v r c n, of env_cleanup_fails, THEN conjunct2, THEN conjunct2, rule_format,
         of boom] o3 e3
  have 3: "ask cfg_clean env_cleanup_fails text_request None =
       (Json 500 (Error_body ''processing_failed'' ''Something went wrong while processing input.''),
        [Responses (cleanup_input ''English'' ?t)])"
    by (simp add: sl)
  from r[of env_cleanup_empty] c o1 1 2 3 show ?thesis
    unfolding sl by (intro conjI)
qed

subsection \<open>Provider failures\<close>

lemma outer_catch_short:
  assumes "str_includes (toLowerCase (error_text e)) ''shorter than'' \<or>
           str_includes (toLowerCase (error_text e)) ''too short''"
  shows "outer_catch e =
           Json 400 (Error_body ''audio_too_short''
                       ''Audio too short. Please record at least 1 second.'')"
  using assms by (simp add: outer_catch_def Let_def)

lemma outer_catch_language:
  assumes "\<not> str_includes (toLowerCase (error_text e)) ''shorter than''"
      and "\<not> str_includes (toLowerCase (error_text e)) ''too short''"
      and "str_includes (toLowerCase (error_text e)) ''invalid''"
      and "str_includes (toLowerCase (error_text e)) ''language''"
  shows "outer_catch e = Json 400 (Error_body ''invalid_language'' ''Unsupported language code.'')"
  using assms by (simp add: outer_catch_def Let_def)

lemma pattern_lower:
  assumes "p \<in> set [''shorter than'', ''too short'', ''invalid'', ''language'']"
      and "str_includes msg p"
  shows "str_includes (toLowerCase msg) p"
proof -
  from assms(1) have "toLowerCase p = p"
    using lower_fixed by auto
  with assms(2) show ?thesis by (rule str_includes_lower)
qed

lemma outer_catch_other:
  assumes "\<not> str_includes (toLowerCase (error_text e)) ''shorter than''"
      and "\<not> str_includes (toLowerCase (error_text e)) ''too short''"
      and "\<not> (str_includes (toLowerCase (error_text e)) ''invalid'' \<and>
              str_includes (toLowerCase (error_text e)) ''language'')"
  shows "outer_catch e =
           Json 500 (Error_body ''processing_failed''
                       ''Something went wrong while processing input.'')"
  using assms by (simp add: outer_catch_def Let_def)

lemma prepare_transcription_thrown:
  assumes "parse_fields (body req) = Inr f" "validate f fu = None"
      and "req_file req = Some a" "5000 \<le> file_size a"
      and "transcribe env (transcription_request cfg a (f_speakLanguage f)) = Inl e"
  shows "prepare cfg env req fu =
           (Inl (Thrown e), [Transcribe (transcription_request cfg a (f_speakLanguage f))])"
  using assms by (simp add: prepare_def resolve_input_def Let_def)

lemma streaming_create_thrown:
  "chat_stream env (c_messages c) = Inl e \<Longrightarrow>
   streaming cfg env c =
     (Sse 200 [Error_frame None (or_str (err_message e) ''processing_failed'')] True,
      [Chat_stream (c_messages c)])"
  by (simp add: streaming_def stream_error_frame_def)

lemma streaming_iteration_thrown:
  "chat_stream env (c_messages c) = Inr (chunks, Some e) \<Longrightarrow>
   streaming cfg env c =
     (Sse 200 (map Delta (filter (\<lambda>t. t \<noteq> []) (tokens chunks)) @
               [Error_frame None (or_str (err_message e) ''processing_failed'')]) True,
      [Chat_stream (c_messages c)])"
  by (simp add: streaming_def stream_error_frame_def stream_loop_tokens)

lemma buffered_thrown:
  "responses_create env (c_messages c) = Inl e \<Longrightarrow>
   buffered cfg env c = (outer_catch e, [Responses (c_messages c)])"
  by (simp add: buffered_def)

text \<open>
  \<^bold>\<open>C4\<close> (amended). The outer catch reads \<^verbatim>\<open>err.error.message\<close>, or \<^verbatim>\<open>err.message\<close> when
  that is empty, in lower case: a message containing \<open>shorter than\<close> or \<open>too short\<close> gives
  \<open>audio_too_short\<close> (400); otherwise one containing both \<open>invalid\<close> and \<open>language\<close> gives
  \<open>invalid_language\<close> (400); every other message gives \<open>processing_failed\<close> (500). A failure
  of the transcription, of the cleanup pass, or of anything else before the messages are
  composed is answered this way, as a JSON body, in both modes; so is a failure of the
  generation in buffered mode. In streaming mode a failure of the generation is not mapped:
  the open stream ends with one error frame that carries \<^verbatim>\<open>err.message\<close> (or
  \<open>processing_failed\<close> when it is empty), after the delta frames already sent, with status 200.
\<close>

theorem provider_failure_mapping:
  "(str_includes (toLowerCase (error_text e)) ''shorter than'' \<or>
    str_includes (toLowerCase (error_text e)) ''too short'' \<longrightarrow>
      outer_catch e =
        Json 400 (Error_body ''audio_too_short''
                    ''Audio too short. Please record at least 1 second.''))
   \<and> (\<not> str_includes (toLowerCase (error_text e)) ''shorter than'' \<and>
      \<not> str_includes (toLowerCase (error_text e)) ''too short'' \<and>
      str_includes (toLowerCase (error_text e)) ''invalid'' \<and>
      str_includes (toLowerCase (error_text e)) ''language'' \<longrightarrow>
      outer_catch e = Json 400 (Error_body ''invalid_language'' ''Unsupported language code.''))
   \<and> (\<not> str_includes (toLowerCase (error_text e)) ''shorter than'' \<and>
      \<not> str_includes (toLowerCase (error_text e)) ''too short'' \<and>
      \<not> (str_includes (toLowerCase (error_text e)) ''invalid'' \<and>
         str_includes (toLowerCase (error_text e)) ''language'') \<longrightarrow>
      outer_catch e =
        Json 500 (Error_body ''processing_failed''
                    ''Something went wrong while processing input.''))
   \<and> (\<forall>p. p \<in> set [''shorter than'', ''too short'', ''invalid'', ''language''] \<and>
          str_includes (error_text e) p \<longrightarrow>
        str_includes (toLowerCase (error_text e)) p)
   \<and> (\<forall>f a. parse_fields (body req) = Inr f \<and> validate f firebaseUser = None \<and>
            req_file req = Some a \<and> 5000 \<le> file_size a \<and>
            transcribe env (transcription_request cfg a (f_speakLanguage f)) = Inl e \<longrightarrow>
          ask cfg env req firebaseUser =
            (outer_catch e, [Transcribe (transcription_request cfg a (f_speakLanguage f))]))
   \<and> (\<forall>cs. prepare cfg env req firebaseUser = (Inl (Thrown e), cs) \<longrightarrow>
          ask cfg env req firebaseUser = (outer_catch e, cs))
   \<and> (\<forall>c cs. prepare cfg env req firebaseUser = (Inr c, cs) \<and> \<not> wantsStream req \<and>
            responses_create env (c_messages c) = Inl e \<longrightarrow>
          ask cfg env req firebaseUser = (outer_catch e, cs @ [Responses (c_messages c)]))
   \<and> (\<forall>c cs. prepare cfg env req firebaseUser = (Inr c, cs) \<and> wantsStream req \<and>
            chat_stream env (c_messages c) = Inl e \<longrightarrow>
          ask cfg env req firebaseUser =
            (Sse 200 [Error_frame None (or_str (err_message e) ''processing_failed'')] True,
             cs @ [Chat_stream (c_messages c)]))
   \<and> (\<forall>c cs chunks. prepare cfg env req firebaseUser = (Inr c, cs) \<and> wantsStream req \<and>
            chat_stream env (c_messages c) = Inr (chunks, Some e) \<longrightarrow>
          ask cfg env req firebaseUser =
            (Sse 200 (map Delta (filter (\<lambda>t. t \<noteq> []) (tokens chunks)) @
                      [Error_frame None (or_str (err_message e) ''processing_failed'')]) True,
             cs @ [Chat_stream (c_messages c)]))"
proof (intro conjI allI impI)
  show "outer_catch e =
        Json 400 (Error_body ''audio_too_short''
                    ''Audio too short. Please record at least 1 second.'')"
    if "str_includes (toLowerCase (error_text e)) ''shorter than'' \<or>
        str_includes (toLowerCase (error_text e)) ''too short''"
    using that by (rule outer_catch_short)
  show "outer_catch e = Json 400 (Error_body ''invalid_language'' ''Unsupported language code.'')"
    if "\<not> str_includes (toLowerCase (error_text e)) ''shorter than'' \<and>
      \<not> str_includes (toLowerCase (error_text e)) ''too short'' \<and>
      str_includes (toLowerCase (error_text e)) ''invalid'' \<and>
      str_includes (toLowerCase (error_text e)) ''language''"
    using that outer_catch_language by blast
  show "outer_catch e =
        Json 500 (Error_body ''processing_failed''
                    ''Something went wrong while processing input.'')"
    if "\<not> str_includes (toLowerCase (error_text e)) ''shorter than'' \<and>
      \<not> str_includes (toLowerCase (error_text e)) ''too short'' \<and>
      \<not> (str_includes (toLowerCase (error_text e)) ''invalid'' \<and>
         str_includes (toLowerCase (error_text e)) ''language'')"
    using that outer_catch_other by blast
  show "str_includes (toLowerCase (error_text e)) p"
    if "p \<in> set [''shorter than'', ''too short'', ''invalid'', ''language''] \<and>
        str_includes (error_text e) p" for p
    using that pattern_lower by blast
  show "ask cfg env req firebaseUser =
            (outer_catch e, [Transcribe (transcription_request cfg a (f_speakLanguage f))])"
    if "parse_fields (body req) = Inr f \<and> validate f firebaseUser = None \<and>
            req_file req = Some a \<and> 5000 \<le> file_size a \<and>
            transcribe env (transcription_request cfg a (f_speakLanguage f)) = Inl e" for f a
    using that prepare_transcription_thrown[of req f firebaseUser a env cfg e]
    by (simp add: ask_thrown)
  show "ask cfg env req firebaseUser = (outer_catch e, cs)"
    if "prepare cfg env req firebaseUser = (Inl (Thrown e), cs)" for cs
    using that by (rule ask_thrown)
  show "ask cfg env req firebaseUser = (outer_catch e, cs @ [Responses (c_messages c)])"
    if "prepare cfg env req firebaseUser = (Inr c, cs) \<and> \<not> wantsStream req \<and>
            responses_create env (c_messages c) = Inl e" for c cs
    using that by (simp add: ask_prepared buffered_thrown)
  show "ask cfg env req firebaseUser =
            (Sse 200 [Error_frame None (or_str (err_message e) ''processing_failed'')] True,
             cs @ [Chat_stream (c_messages c)])"
    if "prepare cfg env req firebaseUser = (Inr c, cs) \<and> wantsStream req \<and>
            chat_stream env (c_messages c) = Inl e" for c cs
    using that by (simp add: ask_prepared streaming_create_thrown)
  show "ask cfg env req firebaseUser =
            (Sse 200 (map Delta (filter (\<lambda>t. t \<noteq> []) (tokens chunks)) @
                      [Error_frame None (or_str (err_message e) ''processing_failed'')]) True,
             cs @ [Chat_stream (c_messages c)])"
    if "prepare cfg env req firebaseUser = (Inr c, cs) \<and> wantsStream req \<and>
            chat_stream env (c_messages c) = Inr (chunks, Some e)" for c cs chunks
    using that by (simp add: ask_prepared streaming_iteration_thrown)
qed

text \<open>
  C4 states the mapping for every provider failure, identically in both modes. A failure of
  the generation is mapped in buffered mode and not in streaming mode.
\<close>

theorem provider_failure_mapping_counterexample:
  "responses_create env_generation_fails (c_messages ask_ctx) = Inl rate_limited
   \<and> chat_stream env_generation_fails (c_messages ask_ctx) = Inl rate_limited
   \<and> serve cfg_plain env_generation_fails text_request =
       (Json 500 (Error_body ''processing_failed'' ''Something went wrong while processing input.''),
        [Responses (c_messages ask_ctx)])
   \<and> serve cfg_plain env_generation_fails stream_request =
       (Sse 200 [Error_frame None ''429 Rate limit reached''] True,
        [Chat_stream (c_messages ask_ctx)])
   \<and> status (fst (serve cfg_plain env_generation_fails stream_request)) \<noteq> 500
   \<and> error_kind (fst (serve cfg_plain env_generation_fails stream_request)) \<noteq>
       Some ''processing_failed''"
  by code_simp

theorem provider_failure_mapping_witness:
  "str_includes (error_text too_short) ''too short''
   \<and> ask cfg_plain (env_stt_fails too_short) (audio_request \<lparr> query_stream := Some ''1'' \<rparr>) None =
       (Json 400 (Error_body ''audio_too_short''
                    ''Audio too short. Please record at least 1 second.''),
        [Transcribe (transcription_request cfg_plain silent_audio ''English'')])
   \<and> outer_catch bad_language =
       Json 400 (Error_body ''invalid_language'' ''Unsupported language code.'')
   \<and> outer_catch rate_limited =
       Json 500 (Error_body ''processing_failed'' ''Something went wrong while processing input.'')
   \<and> ask cfg_plain env_generation_fails text_request None =
       (Json 500 (Error_body ''processing_failed'' ''Something went wrong while processing input.''),
        [Responses (c_messages ask_ctx)])
   \<and> ask cfg_plain env_generation_fails stream_request None =
       (Sse 200 [Error_frame None ''429 Rate limit reached''] True,
        [Chat_stream (c_messages ask_ctx)])"
proof -
  let ?r = "audio_request \<lparr> query_stream := Some ''1'' \<rparr>"
  have s1: "str_includes (error_text too_short) ''too short''" by code_simp
  have s2: "str_includes (toLowerCase (error_text too_short)) ''too short''" by code_simp
  have l1: "\<not> str_includes (toLowerCase (error_text bad_language)) ''shorter than''"
           "\<not> str_includes (toLowerCase (error_text bad_language)) ''too short''"
           "str_includes (toLowerCase (error_text bad_language)) ''invalid''"
           "str_includes (toLowerCase (error_text bad_language)) ''language''"
    by code_simp+
  have o1: "\<not> str_includes (toLowerCase (error_text rate_limited)) ''shorter than''"
           "\<not> str_includes (toLowerCase (error_text rate_limited)) ''too short''"
           "\<not> (str_includes (toLowerCase (error_text rate_limited)) ''invalid'' \<and>
               str_includes (toLowerCase (error_text rate_limited)) ''language'')"
    by code_simp+
  have p: "parse_fields (body ?r) = Inr (english ''c1'' ''alice'')"
    by (simp add: audio_request_def text_request_def ask_body_def parse_fields_def english_def)
       code_simp
  have v: "validate (english ''c1'' ''alice'') None = None" by code_simp
  have f: "req_file ?r = Some silent_audio" by (simp add: audio_request_def)
  have z: "5000 \<le> file_size silent_audio" by (simp add: silent_audio_def)
  have sl: "f_speakLanguage (english ''c1'' ''alice'') = ''English''" by (simp add: english_def)
  have t: "transcribe (env_stt_fails too_short) a = Inl too_short" for a
    by (simp add: env_stt_fails_def)
  have pt: "prepare cfg_plain env_generation_fails text_request None = (Inr ask_ctx, [])"
    by code_simp
  have ps: "prepare cfg_plain env_generation_fails stream_request None = (Inr ask_ctx, [])"
    by code_simp
  have w: "\<not> wantsStream text_request" "wantsStream stream_request" by code_simp+
  have g: "responses_create env_generation_fails m = Inl rate_limited"
          "chat_stream env_generation_fails m = Inl rate_limited" for m
    by (simp_all add: env_generation_fails_def)
  have m: "or_str (err_message rate_limited) ''processing_failed'' = ''429 Rate limit reached''"
    by code_simp
  note th1 = provider_failure_mapping[where e = too_short and req = ?r and firebaseUser = None
      and env = "env_stt_fails too_short" and cfg = cfg_plain]
  note th3 = provider_failure_mapping[where e = rate_limited and req = text_request and firebaseUser = None
      and env = env_generation_fails and cfg = cfg_plain]
  note th4 = provider_failure_mapping[where e = rate_limited and req = stream_request and firebaseUser = None
      and env = env_generation_fails and cfg = cfg_plain]
  from th1[THEN conjunct1] s2
  have c1: "outer_catch too_short =
       Json 400 (Error_body ''audio_too_short''
                    ''Audio too short. Please record at least 1 second.'')"
    by simp
  from th1[THEN conjunct2, THEN conjunct2, THEN conjunct2, THEN conjunct2, THEN conjunct1,
         rule_format, of "english ''c1'' ''alice''" silent_audio] p v f z t
  have 1: "ask cfg_plain (env_stt_fails too_short) ?r None =
       (Json 400 (Error_body ''audio_too_short''
                    ''Audio too short. Please record at least 1 second.''),
        [Transcribe (transcription_request cfg_plain silent_audio ''English'')])"
    by (simp add: sl c1)
  from provider_failure_mapping[where e = bad_language, THEN conjunct2, THEN conjunct1] l1
  have 2: "outer_catch bad_language =
       Json 400 (Error_body ''invalid_language'' ''Unsupported language code.'')"
    by simp
  from th3[THEN conjunct2, THEN conjunct2, THEN conjunct1] o1
  have 3: "outer_catch rate_limited =
       Json 500 (Error_body ''processing_failed'' ''Something went wrong while processing input.'')"
    by simp
  from th3[THEN conjunct2, THEN conjunct2, THEN conjunct2, THEN conjunct2, THEN conjunct2,
         THEN conjunct2, THEN conjunct1, rule_format, of ask_ctx "[]"] pt w g
  have 4: "ask cfg_plain env_generation_fails text_request None =
       (Json 500 (Error_body ''processing_failed'' ''Something went wrong while processing input.''),
        [Responses (c_messages ask_ctx)])"
    by (simp add: 3)
  from th4[THEN conjunct2, THEN conjunct2, THEN conjunct2, THEN conjunct2, THEN conjunct2,
         THEN conjunct2, THEN conjunct2, THEN conjunct1, rule_format, of ask_ctx "[]"] ps w g
  have 5: "ask cfg_plain env_generation_fails stream_request None =
       (Sse 200 [Error_frame None ''429 Rate limit reached''] True,
        [Chat_stream (c_messages ask_ctx)])"
    by (simp add: m)
  from s1 1 2 3 4 5 show ?thesis by (intro conjI)
qed

subsection \<open>Persistence under an unverified identity\<close>

lemma no_verified_identity_iff:
  "no_verified_identity cfg env req \<longleftrightarrow> fst (verifyFirebaseToken cfg env req) = None"
  by (auto simp: no_verified_identity_def verifyFirebaseToken_def split: option.splits sum.splits)

lemma outer_catch_not_unauthenticated: "error_kind (outer_catch e) \<noteq> Some ''unauthenticated''"
  by (simp add: outer_catch_def Let_def)

lemma streaming_no_error_kind: "error_kind (fst (streaming cfg env c)) = None"
  by (auto simp: streaming_def stream_error_frame_def split: sum.splits prod.splits option.splits)

lemma buffered_not_unauthenticated:
  "error_kind (fst (buffered cfg env c)) \<noteq> Some ''unauthenticated''"
  by (auto simp: buffered_def Let_def outer_catch_not_unauthenticated split: sum.splits)

lemma validate_unverified:
  "validate f None = Some (Invalid code k m) \<Longrightarrow> k \<noteq> ''unauthenticated''"
  by (auto simp: validate_def uid_mismatch_def split: if_splits)

lemma resolve_invalid_kind:
  "resolve_input cfg env req sl = (Inl (Invalid code k m), cs) \<Longrightarrow> k = ''no_input''"
  by (auto simp: resolve_input_def text_input_def Let_def
        split: option.splits if_splits sum.splits jsval.splits)

lemma prepare_unverified:
  assumes "prepare cfg env req None = (Inl (Invalid code k m), cs)"
  shows "k \<noteq> ''unauthenticated''"
proof (cases "parse_fields (body req)")
  case (Inl e)
  with assms show ?thesis by (simp add: prepare_def)
next
  case (Inr f)
  show ?thesis
  proof (cases "validate f None")
    case (Some a)
    with assms Inr have "validate f None = Some (Invalid code k m)" by (simp add: prepare_def)
    then show ?thesis by (rule validate_unverified)
  next
    case None
    obtain r rs where r: "resolve_input cfg env req (f_speakLanguage f) = (r, rs)"
      by (cases "resolve_input cfg env req (f_speakLanguage f)")
    show ?thesis
    proof (cases r)
      case (Inl a)
      with assms Inr None r have "a = Invalid code k m" by (simp add: prepare_def)
      with r Inl have "k = ''no_input''" using resolve_invalid_kind by blast
      then show ?thesis by simp
    next
      case (Inr t)
      with assms \<open>parse_fields (body req) = Inr f\<close> None r show ?thesis
        by (auto simp: prepare_def split: prod.splits sum.splits)
    qed
  qed
qed

lemma ask_unverified: "error_kind (fst (ask cfg env req None)) \<noteq> Some ''unauthenticated''"
proof -
  obtain p cs where p: "prepare cfg env req None = (p, cs)"
    by (cases "prepare cfg env req None")
  show ?thesis
  proof (cases p)
    case (Inl a)
    show ?thesis
    proof (cases a)
      case (Invalid code k m)
      with p Inl have q: "prepare cfg env req None = (Inl (Invalid code k m), cs)" by simp
      from prepare_unverified[OF q] show ?thesis
        by (simp add: ask_invalid[OF q] reject_observed)
    next
      case (Thrown e)
      with p Inl have q: "prepare cfg env req None = (Inl (Thrown e), cs)" by simp
      show ?thesis by (simp add: ask_thrown[OF q] outer_catch_not_unauthenticated)
    qed
  next
    case (Inr c)
    with p have q: "prepare cfg env req None = (Inr c, cs)" by simp
    show ?thesis
      by (simp add: ask_prepared[OF q] streaming_no_error_kind buffered_not_unauthenticated)
  qed
qed

lemma prepare_uid:
  "prepare cfg env req fu = (Inr c, cs) \<Longrightarrow> parse_fields (body req) = Inr f \<Longrightarrow>
   c_uid c = f_uid f \<and> c_conversationId c = f_conversationId f"
  by (auto simp: prepare_def split: option.splits prod.splits sum.splits)

lemma write_history_ok:
  assumes "fs_set env (c_uid c) (c_conversationId c) = None"
      and "fs_add env (c_uid c) (c_conversationId c) (user_turn c) = None"
      and "fs_add env (c_uid c) (c_conversationId c) (assistant_turn c a) = None"
  shows "write_history env c a =
           (True, [Fs_set (c_uid c) (c_conversationId c),
                   Fs_add (c_uid c) (c_conversationId c) (user_turn c),
                   Fs_add (c_uid c) (c_conversationId c) (assistant_turn c a)])"
  using assms by (simp add: write_history_def Let_def)

text \<open>
  \<^bold>\<open>C9.\<close> When no identity is verified (no bearer credential, no Admin SDK, or a credential
  that fails verification) and the declared uid is non-empty, the identity check passes and
  the request is never answered \<open>unauthenticated\<close>. When the Admin SDK is initialised, the
  request reaches the generation step, the generation succeeds and the three writes go
  through, the chat document is touched and the user turn and the assistant turn are added
  under \<^verbatim>\<open>users/<declared uid>/chats/<conversationId>\<close>, in both modes.
\<close>

theorem unverified_uid_is_persisted:
  assumes "no_verified_identity cfg env req"
      and "parse_fields (body req) = Inr f"
      and "f_uid f \<noteq> []"
  shows "fst (verifyFirebaseToken cfg env req) = None
       \<and> \<not> uid_mismatch (f_uid f) (fst (verifyFirebaseToken cfg env req))
       \<and> error_kind (fst (serve cfg env req)) \<noteq> Some ''unauthenticated''
       \<and> (\<forall>c cs out.
            adminApp cfg \<and> \<not> wantsStream req \<and>
            prepare cfg env req None = (Inr c, cs) \<and>
            responses_create env (c_messages c) = Inr out \<and>
            fs_set env (f_uid f) (f_conversationId f) = None \<and>
            fs_add env (f_uid f) (f_conversationId f) (user_turn c) = None \<and>
            fs_add env (f_uid f) (f_conversationId f)
              (assistant_turn c (trim (or_str out []))) = None \<longrightarrow>
            snd (serve cfg env req) =
              snd (verifyFirebaseToken cfg env req) @ cs @
              [Responses (c_messages c), Speech (trim (or_str out [])),
               Fs_set (f_uid f) (f_conversationId f),
               Fs_add (f_uid f) (f_conversationId f)
                 \<lparr> t_role = ''user'', t_content = c_userText c,
                   t_speakLanguage = f_speakLanguage f, t_answerLanguage = f_answerLanguage f \<rparr>,
               Fs_add (f_uid f) (f_conversationId f)
                 \<lparr> t_role = ''assistant'', t_content = trim (or_str out []),
                   t_speakLanguage = f_speakLanguage f, t_answerLanguage = f_answerLanguage f \<rparr>])
       \<and> (\<forall>c cs chunks.
            adminApp cfg \<and> wantsStream req \<and>
            prepare cfg env req None = (Inr c, cs) \<and>
            chat_stream env (c_messages c) = Inr (chunks, None) \<and>
            fs_set env (f_uid f) (f_conversationId f) = None \<and>
            fs_add env (f_uid f) (f_conversationId f) (user_turn c) = None \<and>
            fs_add env (f_uid f) (f_conversationId f)
              (assistant_turn c (concat (tokens chunks))) = None \<longrightarrow>
            snd (serve cfg env req) =
              snd (verifyFirebaseToken cfg env req) @ cs @
              [Chat_stream (c_messages c), Speech (concat (tokens chunks)),
               Fs_set (f_uid f) (f_conversationId f),
               Fs_add (f_uid f) (f_conversationId f)
                 \<lparr> t_role = ''user'', t_content = c_userText c,
                   t_speakLanguage = f_speakLanguage f, t_answerLanguage = f_answerLanguage f \<rparr>,
               Fs_add (f_uid f) (f_conversationId f)
                 \<lparr> t_role = ''assistant'', t_content = concat (tokens chunks),
                   t_speakLanguage = f_speakLanguage f, t_answerLanguage = f_answerLanguage f \<rparr>])"
proof -
  have n: "fst (verifyFirebaseToken cfg env req) = None"
    using assms(1) by (simp add: no_verified_identity_iff)
  have m: "\<not> uid_mismatch (f_uid f) (fst (verifyFirebaseToken cfg env req))"
    by (simp add: n uid_mismatch_def)
  have s: "serve cfg env req =
             (fst (ask cfg env req None), snd (verifyFirebaseToken cfg env req) @ snd (ask cfg env req None))"
    using n by (simp add: serve_eq)
  have k: "error_kind (fst (serve cfg env req)) \<noteq> Some ''unauthenticated''"
    by (simp add: s ask_unverified)
  have ctx: "c_uid c = f_uid f \<and> c_conversationId c = f_conversationId f \<and>
             c_speakLanguage c = f_speakLanguage f \<and> c_answerLanguage c = f_answerLanguage f"
    if "prepare cfg env req None = (Inr c, cs)" for c cs
    using that assms(2) by (auto simp: prepare_def split: option.splits prod.splits sum.splits)
  have b: "snd (serve cfg env req) =
              snd (verifyFirebaseToken cfg env req) @ cs @
              [Responses (c_messages c), Speech (trim (or_str out [])),
               Fs_set (f_uid f) (f_conversationId f),
               Fs_add (f_uid f) (f_conversationId f)
                 \<lparr> t_role = ''user'', t_content = c_userText c,
                   t_speakLanguage = f_speakLanguage f, t_answerLanguage = f_answerLanguage f \<rparr>,
               Fs_add (f_uid f) (f_conversationId f)
                 \<lparr> t_role = ''assistant'', t_content = trim (or_str out []),
                   t_speakLanguage = f_speakLanguage f, t_answerLanguage = f_answerLanguage f \<rparr>]"
    if h: "adminApp cfg \<and> \<not> wantsStream req \<and>
            prepare cfg env req None = (Inr c, cs) \<and>
            responses_create env (c_messages c) = Inr out \<and>
            fs_set env (f_uid f) (f_conversationId f) = None \<and>
            fs_add env (f_uid f) (f_conversationId f) (user_turn c) = None \<and>
            fs_add env (f_uid f) (f_conversationId f)
              (assistant_turn c (trim (or_str out []))) = None" for c cs out
  proof -
    from h have p: "prepare cfg env req None = (Inr c, cs)" by simp
    note x = ctx[OF p]
    have w: "write_history env c (trim (or_str out [])) =
           (True, [Fs_set (c_uid c) (c_conversationId c),
                   Fs_add (c_uid c) (c_conversationId c) (user_turn c),
                   Fs_add (c_uid c) (c_conversationId c) (assistant_turn c (trim (or_str out [])))])"
      using h x by (intro write_history_ok) simp_all
    have "snd (buffered cfg env c) =
            [Responses (c_messages c), Speech (trim (or_str out [])),
             Fs_set (c_uid c) (c_conversationId c),
             Fs_add (c_uid c) (c_conversationId c) (user_turn c),
             Fs_add (c_uid c) (c_conversationId c) (assistant_turn c (trim (or_str out [])))]"
      using h x assms(3) by (simp add: buffered_def Let_def persist_def w)
    with h x show ?thesis
      by (simp add: s ask_prepared[OF p] user_turn_def assistant_turn_def)
  qed
  have t: "snd (serve cfg env req) =
              snd (verifyFirebaseToken cfg env req) @ cs @
              [Chat_stream (c_messages c), Speech (concat (tokens chunks)),
               Fs_set (f_uid f) (f_conversationId f),
               Fs_add (f_uid f) (f_conversationId f)
                 \<lparr> t_role = ''user'', t_content = c_userText c,
                   t_speakLanguage = f_speakLanguage f, t_answerLanguage = f_answerLanguage f \<rparr>,
               Fs_add (f_uid f) (f_conversationId f)
                 \<lparr> t_role = ''assistant'', t_content = concat (tokens chunks),
                   t_speakLanguage = f_speakLanguage f, t_answerLanguage = f_answerLanguage f \<rparr>]"
    if h: "adminApp cfg \<and> wantsStream req \<and>
            prepare cfg env req None = (Inr c, cs) \<and>
            chat_stream env (c_messages c) = Inr (chunks, None) \<and>
            fs_set env (f_uid f) (f_conversationId f) = None \<and>
            fs_add env (f_uid f) (f_conversationId f) (user_turn c) = None \<and>
            fs_add env (f_uid f) (f_conversationId f)
              (assistant_turn c (concat (tokens chunks))) = None" for c cs chunks
  proof -
    from h have p: "prepare cfg env req None = (Inr c, cs)" by simp
    from h have g: "chat_stream env (c_messages c) = Inr (chunks, None)" by simp
    note x = ctx[OF p]
    have w: "write_history env c (concat (tokens chunks)) =
           (True, [Fs_set (c_uid c) (c_conversationId c),
                   Fs_add (c_uid c) (c_conversationId c) (user_turn c),
                   Fs_add (c_uid c) (c_conversationId c) (assistant_turn c (concat (tokens chunks)))])"
      using h x by (intro write_history_ok) simp_all
    have "snd (streaming cfg env c) =
            [Chat_stream (c_messages c), Speech (concat (tokens chunks)),
             Fs_set (c_uid c) (c_conversationId c),
             Fs_add (c_uid c) (c_conversationId c) (user_turn c),
             Fs_add (c_uid c) (c_conversationId c) (assistant_turn c (concat (tokens chunks)))]"
      using h x assms(3) by (simp add: streaming_completed[OF g] persist_def w)
    with h x show ?thesis
      by (simp add: s ask_prepared[OF p] user_turn_def assistant_turn_def)
  qed
  show ?thesis
    apply (intro conjI allI impI)
    subgoal by (rule n)
    subgoal by (rule m)
    subgoal by (rule k)
    subgoal for c cs out by (rule b)
    subgoal for c cs chunks by (rule t)
    done
qed

theorem unverified_uid_is_persisted_witness:
  "no_verified_identity cfg_plain env_bad_token forged_request
   \<and> verifyFirebaseToken cfg_plain env_bad_token forged_request = (None, [Verify ''forged''])
   \<and> parse_fields (body forged_request) = Inr (english ''c1'' ''alice'')
   \<and> error_kind (fst (serve cfg_plain env_bad_token forged_request)) \<noteq> Some ''unauthenticated''
   \<and> snd (serve cfg_plain env_bad_token forged_request) =
       [Verify ''forged'', Responses (c_messages ask_ctx), Speech ''Four!'',
        Fs_set ''alice'' ''c1'',
        Fs_add ''alice'' ''c1''
          \<lparr> t_role = ''user'', t_content = ''What is 2+2?'',
            t_speakLanguage = ''English'', t_answerLanguage = ''English'' \<rparr>,
        Fs_add ''alice'' ''c1''
          \<lparr> t_role = ''assistant'', t_content = ''Four!'',
            t_speakLanguage = ''English'', t_answerLanguage = ''English'' \<rparr>]
   \<and> no_verified_identity cfg_plain env_ok stream_request
   \<and> snd (serve cfg_plain env_ok stream_request) =
       [Chat_stream (c_messages ask_ctx), Speech ''Four!'',
        Fs_set ''alice'' ''c1'',
        Fs_add ''alice'' ''c1''
          \<lparr> t_role = ''user'', t_content = ''What is 2+2?'',
            t_speakLanguage = ''English'', t_answerLanguage = ''English'' \<rparr>,
        Fs_add ''alice'' ''c1''
          \<lparr> t_role = ''assistant'', t_content = ''Four!'',
            t_speakLanguage = ''English'', t_answerLanguage = ''English'' \<rparr>]"
proof -
  let ?f = "english ''c1'' ''alice''"
  have n1: "no_verified_identity cfg_plain env_bad_token forged_request" by code_simp
  have n2: "no_verified_identity cfg_plain env_ok stream_request" by code_simp
  have v1: "verifyFirebaseToken cfg_plain env_bad_token forged_request = (None, [Verify ''forged''])"
    by code_simp
  have v2: "verifyFirebaseToken cfg_plain env_ok stream_request = (None, [])"
    by code_simp
  have p1: "parse_fields (body forged_request) = Inr ?f" by code_simp
  have p2: "parse_fields (body stream_request) = Inr ?f" by code_simp
  have u: "f_uid ?f \<noteq> []" by code_simp
  have fs: "f_uid ?f = ''alice''" "f_conversationId ?f = ''c1''" "f_speakLanguage ?f = ''English''"
    "f_answerLanguage ?f = ''English''"
    by (simp_all add: english_def)
  have a: "adminApp cfg_plain" by code_simp
  have w: "\<not> wantsStream forged_request" "wantsStream stream_request" by code_simp+
  have q1: "prepare cfg_plain env_bad_token forged_request None = (Inr ask_ctx, [])" by code_simp
  have q2: "prepare cfg_plain env_ok stream_request None = (Inr ask_ctx, [])" by code_simp
  have g1: "responses_create env_bad_token (c_messages ask_ctx) = Inr (Some ''Four!'')"
    by (simp add: env_bad_token_def env_ok_def)
  have g2: "chat_stream env_ok (c_messages ask_ctx) = Inr ([Some ''Fo'', None, Some ''ur!''], None)"
    by (simp add: env_ok_def)
  have st: "fs_set env_bad_token x y = None" "fs_add env_bad_token x y z = None"
    "fs_set env_ok x y = None" "fs_add env_ok x y z = None" for x y z
    by (simp_all add: env_bad_token_def env_ok_def)
  have e: "trim (or_str (Some ''Four!'') []) = ''Four!''"
    "concat (tokens [Some ''Fo'', None, Some ''ur!'']) = ''Four!''"
    "c_userText ask_ctx = ''What is 2+2?''"
    by code_simp+
  note t1 = unverified_uid_is_persisted[OF n1 p1 u]
  note t2 = unverified_uid_is_persisted[OF n2 p2 u]
  from t1 have k: "error_kind (fst (serve cfg_plain env_bad_token forged_request)) \<noteq>
      Some ''unauthenticated''"
    by simp
  from t1[THEN conjunct2, THEN conjunct2, THEN conjunct2, THEN conjunct1, rule_format,
        of ask_ctx "[]" "Some ''Four!''"] a w q1 g1 st
  have 1: "snd (serve cfg_plain env_bad_token forged_request) =
       [Verify ''forged'', Responses (c_messages ask_ctx), Speech ''Four!'',
        Fs_set ''alice'' ''c1'',
        Fs_add ''alice'' ''c1''
          \<lparr> t_role = ''user'', t_content = ''What is 2+2?'',
            t_speakLanguage = ''English'', t_answerLanguage = ''English'' \<rparr>,
        Fs_add ''alice'' ''c1''
          \<lparr> t_role = ''assistant'', t_content = ''Four!'',
            t_speakLanguage = ''English'', t_answerLanguage = ''English'' \<rparr>]"
    by (simp add: v1 fs e)
  from t2[THEN conjunct2, THEN conjunct2, THEN conjunct2, THEN conjunct2, rule_format,
        of ask_ctx "[]" "[Some ''Fo'', None, Some ''ur!'']"] a w q2 g2 st
  have 2: "snd (serve cfg_plain env_ok stream_request) =
       [Chat_stream (c_messages ask_ctx), Speech ''Four!'',
        Fs_set ''alice'' ''c1'',
        Fs_add ''alice'' ''c1''
          \<lparr> t_role = ''user'', t_content = ''What is 2+2?'',
            t_speakLanguage = ''English'', t_answerLanguage = ''English'' \<rparr>,
        Fs_add ''alice'' ''c1''
          \<lparr> t_role = ''assistant'', t_content = ''Four!'',
            t_speakLanguage = ''English'', t_answerLanguage = ''English'' \<rparr>]"
    by (simp add: v2 fs e)
  from n1 v1 p1 k 1 n2 2 show ?thesis by (intro conjI)
qed

end
